theory Spec2Isabelle
  imports Main
begin

section \<open>JavaScript values\<close>

text \<open>
  The plugin \<^verbatim>\<open>experimental/plugins/lando-platformsh/app.js\<close> passes JSON-like values
  around. An object keeps its keys in insertion order, so it is an association list.
\<close>

datatype jv =
    JUndefined
  | JNull
  | JBool bool
  | JNum int
  | JStr string
  | JArr "jv list"
  | JObj "(string \<times> jv) list"

text \<open>JavaScript truthiness, as used by \<^verbatim>\<open>if (!x)\<close> and \<^verbatim>\<open>x || []\<close>.\<close>

fun truthy :: "jv \<Rightarrow> bool" where
  "truthy JUndefined = False"
| "truthy JNull = False"
| "truthy (JBool b) = b"
| "truthy (JNum n) = (n \<noteq> 0)"
| "truthy (JStr s) = (s \<noteq> [])"
| "truthy (JArr xs) = True"
| "truthy (JObj kvs) = True"

text \<open>lodash \<^verbatim>\<open>_.isEmpty\<close>: nullish values, booleans and numbers are empty; strings, arrays
  and objects are empty when they have no element.\<close>

fun isEmpty :: "jv \<Rightarrow> bool" where
  "isEmpty (JStr s) = (s = [])"
| "isEmpty (JArr xs) = (xs = [])"
| "isEmpty (JObj kvs) = (kvs = [])"
| "isEmpty v = True"

type_synonym endpoint = "(string \<times> jv) list"

text \<open>Property assignment \<^verbatim>\<open>obj[k] = v\<close>: an existing key keeps its place, a new key goes last.\<close>

fun assign :: "string \<Rightarrow> jv \<Rightarrow> endpoint \<Rightarrow> endpoint" where
  "assign k v [] = [(k, v)]"
| "assign k v (p # ps) = (if fst p = k then (k, v) # ps else p # assign k v ps)"

text \<open>
  lodash \<^verbatim>\<open>_.merge(object, source)\<close> for a source whose values are primitives (strings,
  null, undefined), which is all the plugin merges: for each source key in order,
  \<^verbatim>\<open>assignMergeValue\<close> stores the value, except that an undefined value never replaces a
  key the object already has.
\<close>

definition assignMergeValue :: "endpoint \<Rightarrow> string \<times> jv \<Rightarrow> endpoint" where
  "assignMergeValue obj kv =
     (if snd kv = JUndefined \<and> fst kv \<in> fst ` set obj then obj
      else assign (fst kv) (snd kv) obj)"

definition merge :: "endpoint \<Rightarrow> endpoint \<Rightarrow> endpoint" where
  "merge obj source = foldl assignMergeValue obj source"

text \<open>Property read \<^verbatim>\<open>obj[k]\<close>: undefined when the key is missing.\<close>

definition get_prop :: "endpoint \<Rightarrow> string \<Rightarrow> jv" where
  "get_prop obj k = (case map_of obj k of None \<Rightarrow> JUndefined | Some v \<Rightarrow> v)"

text \<open>\<^verbatim>\<open>[a, b].join(':')\<close>: an undefined element is joined as the empty string.\<close>

definition join_colon :: "string option \<Rightarrow> string option \<Rightarrow> string" where
  "join_colon a b =
     (case a of None \<Rightarrow> [] | Some s \<Rightarrow> s) @ '':'' @ (case b of None \<Rightarrow> [] | Some s \<Rightarrow> s)"

section \<open>The data the plugin works on\<close>

datatype error =
    TypeError string
  | Rejected string

datatype level = Silly | Debug | Verbose | ErrorLevel

text \<open>A credential record of the token cache: \<^verbatim>\<open>{token, email, date}\<close>.\<close>

record credential =
  token :: string
  email :: string
  date :: int


text \<open>The persistent cache holds the token list under one key and JSON values under the others.\<close>

datatype cache_value = CTokens "credential list" | CVal jv

fun cache_truthy :: "cache_value option \<Rightarrow> bool" where
  "cache_truthy None = False"
| "cache_truthy (Some (CTokens ts)) = True"
| "cache_truthy (Some (CVal v)) = truthy v"

text \<open>An entry of \<^verbatim>\<open>app.config.services\<close>, with the fields of its \<^verbatim>\<open>platformsh\<close> object
  that the plugin reads or writes. \<^verbatim>\<open>openMerge\<close> is unset until the post-start scan.\<close>

record service =
  service_name :: string
  version :: "string option"
  psh_type :: "string option"
  psh_hostname :: jv
  opener :: string
  relationships :: "(string \<times> string) list"
  openMerge :: "endpoint option"

record application =
  application_name :: string
  configFile :: string

record run_config =
  rc_service :: string
  rc_file :: string
  rc_data :: jv

text \<open>What \<^verbatim>\<open>pshconf.loadConfigFiles\<close> returns, as far as the plugin looks into it.\<close>

record raw_config =
  raw_applications :: jv
  raw_applicationFiles :: jv
  raw_routes :: jv
  raw_services :: jv

record platformsh =
  config :: raw_config
  psh_domain :: string
  psh_id :: string
  tokenCache :: string
  tokens :: "credential list"
  routes :: jv
  applications :: "application list"
  closestApp :: "application option"
  closestOpenCache :: "cache_value option"
  psh_relationships :: jv
  psh_services :: jv
  runConfig :: "run_config list"

text \<open>The event handlers the plugin registers. A handler registered inside \<^verbatim>\<open>post-init\<close>
  closes over the service lists computed there; services are referred to by their
  position in \<^verbatim>\<open>app.config.services\<close>, since the handlers share the objects of that list.\<close>

datatype handler =
    PreInit
  | PostStartWarn
  | PostCommand string
  | PostInitRunConfig
  | PreStartRunConfig
  | PostInitScan
  | PostStartScan "nat list"
  | PostInitOpen
  | PostStartOpen "nat list" "nat list"

record app =
  app_id :: string
  app_name :: string
  root :: string
  project :: string
  recipe :: "string option"
  config_id :: "string option"
  config_services :: "service list"
  userConfRoot :: string
  conf_domain :: string
  configPath :: "string option"
  platformsh :: "platformsh option"
  preLockfile :: string
  compose :: jv
  events :: "(string \<times> nat option \<times> handler) list"

text \<open>A request to \<^verbatim>\<open>lando.engine.run\<close>.\<close>

record run_request =
  run_id :: string
  cmd :: "string list"
  run_compose :: jv
  run_project :: string
  opts :: endpoint

text \<open>
  Everything a handler does beyond changing the app object, in the order it happens. A
  log entry carries its message and, where a property below is about them, the further
  arguments of the call. \<^verbatim>\<open>Settled\<close> marks the moment the promise of a phase-1 probe is
  fulfilled with the probe's output or rejected.
\<close>

datatype event =
    AppLog level string "jv list"
  | LandoLog level string
  | AlsoSanitize string
  | Mkdirp string
  | WriteFile string string
  | CacheSet string cache_value
  | EngineRun run_request
  | Settled string "error + string"

datatype fs_node = Dir | File string

record world =
  the_app :: app
  cache :: "string \<Rightarrow> cache_value option"
  fs :: "string \<Rightarrow> fs_node option"
  trace :: "event list"

text \<open>
  The collaborators the plugin calls and whose code is elsewhere (\<^verbatim>\<open>./lib/config\<close>,
  \<^verbatim>\<open>./lib/run\<close>, \<^verbatim>\<open>./lib/utils\<close>, \<^verbatim>\<open>./lib/open\<close>, the container engine, the remote API, and the
  built-ins \<^verbatim>\<open>path.join\<close> and \<^verbatim>\<open>JSON.stringify\<close>) are parameters of the model.
  \<^verbatim>\<open>engine_run\<close> takes the number of the attempt, so that a probe can fail transiently;
  \<^verbatim>\<open>retry_max\<close> is the retry bound of \<^verbatim>\<open>lando.Promise.retry\<close>; \<^verbatim>\<open>isApplication\<close> is the test by
  which \<^verbatim>\<open>utils.getApplicationServices\<close> and \<^verbatim>\<open>utils.getNonApplicationServices\<close> select.
  \<^verbatim>\<open>findClosestApplication\<close> may find nothing (\<^verbatim>\<open>None\<close>). \<^verbatim>\<open>parseOpenData\<close> throws (\<^verbatim>\<open>Inl\<close>) or
  yields the endpoint descriptors of the service, each under its name: the handler goes
  through them with \<^verbatim>\<open>_.forEach\<close> and merges into each as into one endpoint object.
\<close>

record deps =
  loadConfigFiles :: "string \<Rightarrow> raw_config"
  parseRoutes :: "jv \<Rightarrow> string \<Rightarrow> jv"
  parseApps :: "jv \<Rightarrow> jv \<Rightarrow> application list"
  findClosestApplication :: "string option"
  parseRelationships :: "jv \<Rightarrow> cache_value option \<Rightarrow> jv"
  parseServices :: "jv \<Rightarrow> jv \<Rightarrow> jv"
  buildRunConfig :: "app \<Rightarrow> run_config list"
  isApplication :: "service \<Rightarrow> bool"
  sortTokens :: "credential list \<Rightarrow> credential list \<Rightarrow> credential list"
  getIPAddress :: "jv \<Rightarrow> string \<Rightarrow> jv"
  parseOpenData :: "string \<Rightarrow> string + (string \<times> endpoint) list"
  open_parseRelationships :: "(string \<times> string) list \<Rightarrow> (string \<times> string) list"
  generateOpenPayload :: "(string \<Rightarrow> (string \<times> endpoint) list option) \<Rightarrow> (string \<times> string) list \<Rightarrow> jv"
  getAccountInfo :: "string \<Rightarrow> error + string"
  engine_run :: "run_request \<Rightarrow> nat \<Rightarrow> error + string"
  engine_scan :: "string \<Rightarrow> error + jv"
  retry_max :: nat
  path_join :: "string list \<Rightarrow> string"
  JSON_stringify :: "jv \<Rightarrow> string"

section \<open>Effects\<close>

definition emit :: "event \<Rightarrow> world \<Rightarrow> world" where
  "emit e w = w\<lparr>trace := trace w @ [e]\<rparr>"

definition app_log :: "level \<Rightarrow> string \<Rightarrow> world \<Rightarrow> world" where
  "app_log l msg w = emit (AppLog l msg []) w"

definition events_on :: "string \<Rightarrow> nat option \<Rightarrow> handler \<Rightarrow> world \<Rightarrow> world" where
  "events_on ev prio h w = w\<lparr>the_app := (the_app w)\<lparr>events := events (the_app w) @ [(ev, prio, h)]\<rparr>\<rparr>"

definition cache_set :: "string \<Rightarrow> cache_value \<Rightarrow> world \<Rightarrow> world" where
  "cache_set k v w = emit (CacheSet k v) (w\<lparr>cache := (cache w)(k \<mapsto> v)\<rparr>)"

definition existsSync :: "world \<Rightarrow> string \<Rightarrow> bool" where
  "existsSync w p = (fs w p \<noteq> None)"

definition mkdirp_sync :: "string \<Rightarrow> world \<Rightarrow> world" where
  "mkdirp_sync p w = emit (Mkdirp p) (w\<lparr>fs := (fs w)(p \<mapsto> Dir)\<rparr>)"

definition writeFileSync :: "string \<Rightarrow> string \<Rightarrow> world \<Rightarrow> world" where
  "writeFileSync f c w = emit (WriteFile f c) (w\<lparr>fs := (fs w)(f \<mapsto> File c)\<rparr>)"

definition set_platformsh :: "(platformsh \<Rightarrow> platformsh) \<Rightarrow> world \<Rightarrow> world" where
  "set_platformsh f w = w\<lparr>the_app := (the_app w)\<lparr>platformsh := map_option f (platformsh (the_app w))\<rparr>\<rparr>"

section \<open>The module: \<^verbatim>\<open>module.exports = (app, lando) => ...\<close>\<close>

text \<open>\<^verbatim>\<open>lando.cache.get(app.platformsh.tokenCache) || []\<close>; only the token handlers write this key.\<close>

definition cached_tokens :: "world \<Rightarrow> string \<Rightarrow> credential list" where
  "cached_tokens w k = (case cache w k of Some (CTokens ts) \<Rightarrow> ts | _ \<Rightarrow> [])"

definition module_exports :: "deps \<Rightarrow> world \<Rightarrow> world" where
  "module_exports d w =
    (if recipe (the_app w) = Some ''platformsh'' then
       let a = the_app w;
           new_id = (case config_id a of Some i \<Rightarrow> i | None \<Rightarrow> app_id a);
           w1 = w\<lparr>the_app := a\<lparr>app_id := new_id\<rparr>\<rparr>;
           w2 = app_log Verbose ''identified a platformsh app'' w1;
           w3 = app_log Debug (''reset app id to '' @ new_id) w2;
           w4 = emit (AlsoSanitize ''platformsh-auth'') w3;
           p = path_join d [userConfRoot a, ''config'', app_name a];
           w5 = w4\<lparr>the_app := (the_app w4)\<lparr>configPath := Some p\<rparr>\<rparr>;
           w6 = (if \<not> existsSync w5 p then mkdirp_sync p w5 else w5);
           w7 = app_log Debug (''ensured '' @ p @ '' exists'') w6;
           psh = \<lparr>config = loadConfigFiles d (root a),
                  psh_domain = app_name a @ ''.'' @ conf_domain a,
                  psh_id = new_id,
                  tokenCache = ''platformsh.tokens'',
                  tokens = cached_tokens w7 ''platformsh.tokens'',
                  routes = JUndefined,
                  applications = [],
                  closestApp = None,
                  closestOpenCache = None,
                  psh_relationships = JUndefined,
                  psh_services = JUndefined,
                  runConfig = []\<rparr>;
           w8 = w7\<lparr>the_app := (the_app w7)\<lparr>platformsh := Some psh\<rparr>\<rparr>;
           w9 = app_log Silly ''loaded platform config files'' w8;
           w10 = events_on ''pre-init'' (Some 1) PreInit w9;
           w11 = events_on ''post-pull'' None (PostCommand ''pull'') w10;
           w12 = events_on ''post-push'' None (PostCommand ''push'') w11;
           w13 = events_on ''post-init'' None PostInitRunConfig w12;
           w14 = events_on ''post-init'' None PostInitScan w13;
           w15 = events_on ''post-init'' None PostInitOpen w14
       in w15
     else w)"

subsection \<open>\<^verbatim>\<open>post-init\<close> / \<^verbatim>\<open>pre-start\<close> (1): dumping the run config\<close>

definition post_init_run_config :: "world \<Rightarrow> world" where
  "post_init_run_config w = events_on ''pre-start'' (Some 1) PreStartRunConfig w"

definition dump_run_config :: "deps \<Rightarrow> world \<Rightarrow> run_config \<Rightarrow> world" where
  "dump_run_config d w s =
     app_log Debug (''dumped platform config file for '' @ rc_service s @ '' to '' @ rc_file s)
       (writeFileSync (rc_file s) (JSON_stringify d (rc_data s)) w)"

definition app_runConfig :: "world \<Rightarrow> run_config list" where
  "app_runConfig w = (case platformsh (the_app w) of None \<Rightarrow> [] | Some p \<Rightarrow> runConfig p)"

definition pre_start_run_config :: "deps \<Rightarrow> world \<Rightarrow> world" where
  "pre_start_run_config d w =
     (if \<not> cache_truthy (cache w (preLockfile (the_app w)))
      then foldl (dump_run_config d) w (app_runConfig w)
      else w)"

subsection \<open>\<^verbatim>\<open>pre-init\<close> (1): interpreting the platform config files\<close>

text \<open>
  A handler returns the error it threw or was rejected with, if any, and the world as it
  is then: what was done before the throw stays done.

  \<^verbatim>\<open>_.find(applications, {configFile: ...})\<close> yields undefined when nothing matches, and the
  next statement reads \<^verbatim>\<open>.name\<close> of it.
\<close>

definition pre_init :: "deps \<Rightarrow> world \<Rightarrow> error option \<times> world" where
  "pre_init d w =
    (case platformsh (the_app w) of
       None \<Rightarrow> (Some (TypeError ''Cannot read property config of undefined''), w)
     | Some p0 \<Rightarrow>
       let a = the_app w;
           w1 = (if isEmpty (raw_applications (config p0))
                 then emit (LandoLog ErrorLevel (''Could not detect any valid .platform.app.yaml files in ''
                              @ root a @ '' or its subdirs!'')) w
                 else w);
           w2 = events_on ''post-start'' (Some 9) PostStartWarn w1;
           platformConfig = config p0;
           w3 = set_platformsh (\<lambda>p. p\<lparr>routes := parseRoutes d (raw_routes platformConfig) (psh_domain p)\<rparr>) w2;
           w4 = app_log Verbose ''parsed platformsh routes'' w3;
           w5 = app_log Silly ''platformsh routes are'' w4;
           apps = parseApps d (raw_applications platformConfig) (raw_applicationFiles platformConfig);
           w6 = set_platformsh (\<lambda>p. p\<lparr>applications := apps\<rparr>) w5;
           w7 = app_log Verbose ''parsed platformsh applications'' w6;
           w8 = app_log Silly ''platformsh applications are'' w7;
           closest = find (\<lambda>x. Some (configFile x) = findClosestApplication d) apps;
           w9 = set_platformsh (\<lambda>p. p\<lparr>closestApp := closest\<rparr>) w8
       in (case closest of
             None \<Rightarrow> (Some (TypeError ''Cannot read property name of undefined''), w9)
           | Some c \<Rightarrow>
             let oc = cache w9 (app_name a @ ''.'' @ application_name c @ ''.open.cache'');
                 w10 = set_platformsh (\<lambda>p. p\<lparr>closestOpenCache := oc\<rparr>) w9;
                 w11 = app_log Verbose (''the closest platform app is at '' @ configFile c) w10;
                 w12 = app_log Verbose ''the closest open cache is %s'' w11;
                 rels = parseRelationships d (raw_applications platformConfig) oc;
                 w13 = set_platformsh (\<lambda>p. p\<lparr>psh_relationships := rels\<rparr>) w12;
                 w14 = app_log Verbose ''determined platformsh relationships'' w13;
                 w15 = app_log Silly ''platformsh relationships are'' w14;
                 w16 = set_platformsh (\<lambda>p. p\<lparr>psh_services := parseServices d (raw_services platformConfig) rels\<rparr>) w15;
                 w17 = app_log Verbose ''parsed platformsh services'' w16;
                 w18 = app_log Silly ''platformsh services ares'' w17;
                 w19 = set_platformsh (\<lambda>p. p\<lparr>runConfig := buildRunConfig d (the_app w18)\<rparr>) w18;
                 w20 = app_log Verbose ''built platformsh config jsons'' w19;
                 w21 = app_log Silly ''generated platformsh runtime config is'' w20
             in (None, w21)))"

subsection \<open>\<^verbatim>\<open>post-pull\<close> and \<^verbatim>\<open>post-push\<close>: refreshing the token cache\<close>






subsection \<open>\<^verbatim>\<open>post-init\<close> / \<^verbatim>\<open>post-start\<close> (1): facts known once the containers run\<close>

text \<open>
  Modelled from the spec: \<^verbatim>\<open>utils.getNonApplicationServices\<close> and
  \<^verbatim>\<open>utils.getApplicationServices\<close> (\<^verbatim>\<open>./lib/utils\<close>) are missing. A backing service is "a
  non-application container", an application server "a container running the end-user
  application code": the two functions select from \<^verbatim>\<open>app.config.services\<close>, and what they
  return are the objects of that list, here their positions.
\<close>

definition nonApplicationServices :: "deps \<Rightarrow> service list \<Rightarrow> nat list" where
  "nonApplicationServices d ss = filter (\<lambda>i. \<not> isApplication d (ss ! i)) [0..<length ss]"

definition applicationServices :: "deps \<Rightarrow> service list \<Rightarrow> nat list" where
  "applicationServices d ss = filter (\<lambda>i. isApplication d (ss ! i)) [0..<length ss]"

definition post_init_scan :: "deps \<Rightarrow> world \<Rightarrow> world" where
  "post_init_scan d w =
     events_on ''post-start'' (Some 1)
       (PostStartScan (nonApplicationServices d (config_services (the_app w)))) w"

definition container_id :: "app \<Rightarrow> string \<Rightarrow> string" where
  "container_id a n = project a @ ''_'' @ n @ ''_1''"

text \<open>The object stored as \<^verbatim>\<open>serviceConfig.platformsh.openMerge\<close>.\<close>

definition make_openMerge :: "deps \<Rightarrow> app \<Rightarrow> service \<Rightarrow> jv \<Rightarrow> endpoint" where
  "make_openMerge d a serviceConfig data =
     [(''cluster'', JStr ''bespin''),
      (''fragment'', JNull),
      (''hostname'', JStr (app_name a @ ''.'' @ service_name serviceConfig @ ''.service._.lndo.site'')),
      (''ip'', getIPAddress d data (project a @ ''_default'')),
      (''rel'', psh_hostname serviceConfig),
      (''service'', JStr (service_name serviceConfig)),
      (''type'', JStr (join_colon (psh_type serviceConfig) (version serviceConfig)))]"

text \<open>\<^verbatim>\<open>_.find(app.config.services, {name: ...})\<close> returns the first entry of that name; the
  assignment changes that entry.\<close>

fun set_openMerge :: "string \<Rightarrow> (service \<Rightarrow> endpoint) \<Rightarrow> service list \<Rightarrow> service list" where
  "set_openMerge n f [] = []"
| "set_openMerge n f (s # ss) =
     (if service_name s = n then s\<lparr>openMerge := Some (f s)\<rparr> # ss else s # set_openMerge n f ss)"

definition scan_service :: "deps \<Rightarrow> error option \<times> world \<Rightarrow> nat \<Rightarrow> error option \<times> world" where
  "scan_service d st i =
    (let w = snd st; a = the_app w; n = service_name (config_services a ! i)
     in case engine_scan d (container_id a n) of
          Inl e \<Rightarrow> (if fst st = None then Some e else fst st, w)
        | Inr data \<Rightarrow>
          (case find (\<lambda>s. service_name s = n) (config_services a) of
             None \<Rightarrow> (if fst st = None then Some (TypeError ''Cannot read property platformsh of undefined'') else fst st, w)
           | Some _ \<Rightarrow>
             (fst st,
              w\<lparr>the_app := a\<lparr>config_services :=
                   set_openMerge n (\<lambda>s. make_openMerge d a s data) (config_services a)\<rparr>\<rparr>)))"

definition post_start_scan :: "deps \<Rightarrow> nat list \<Rightarrow> world \<Rightarrow> error option \<times> world" where
  "post_start_scan d services w = foldl (scan_service d) (None, w) services"

subsection \<open>\<^verbatim>\<open>post-init\<close> / \<^verbatim>\<open>post-start\<close> (8): the OPEN handler\<close>

text \<open>
  Modelled from the spec: \<^verbatim>\<open>lando.Promise.retry\<close> is not in this file; a probe is run
  "at least once, bounded retries". \<^verbatim>\<open>retry n f c\<close> calls \<^verbatim>\<open>f\<close> with the attempt number,
  starting at \<^verbatim>\<open>c\<close>, until it succeeds or \<^verbatim>\<open>n\<close> retries are used up; \<^verbatim>\<open>attempts\<close> counts
  the calls.
\<close>

fun retry :: "nat \<Rightarrow> (nat \<Rightarrow> error + 'a) \<Rightarrow> nat \<Rightarrow> error + 'a" where
  "retry 0 f c = f c"
| "retry (Suc n) f c = (case f c of Inr x \<Rightarrow> Inr x | Inl e \<Rightarrow> retry n f (Suc c))"

fun attempts :: "nat \<Rightarrow> (nat \<Rightarrow> error + 'a) \<Rightarrow> nat \<Rightarrow> nat" where
  "attempts 0 f c = 1"
| "attempts (Suc n) f c = (case f c of Inr x \<Rightarrow> 1 | Inl e \<Rightarrow> Suc (attempts n f (Suc c)))"

definition service_request :: "app \<Rightarrow> service \<Rightarrow> run_request" where
  "service_request a s =
     \<lparr>run_id = container_id a (service_name s),
      cmd = [''/helpers/psh-open.sh'', opener s],
      run_compose = compose a,
      run_project = project a,
      opts = [(''mode'', JStr ''attach''),
              (''services'', JArr [JStr (service_name s)]),
              (''user'', JStr ''root''),
              (''noTTY'', JBool True),
              (''cstdio'', JArr [JStr ''ignore'', JStr ''pipe'', JStr ''ignore'']),
              (''silent'', JBool True)]\<rparr>"

definition appserver_request :: "deps \<Rightarrow> app \<Rightarrow> service \<Rightarrow> jv \<Rightarrow> run_request" where
  "appserver_request d a appserver openPayload =
     \<lparr>run_id = container_id a (service_name appserver),
      cmd = [''/helpers/psh-open.sh'', JSON_stringify d (JObj [(''relationships'', openPayload)])],
      run_compose = compose a,
      run_project = project a,
      opts = [(''hijack'', JBool False),
              (''services'', JArr [JStr (service_name appserver)]),
              (''user'', JStr ''root''),
              (''cstdio'', JArr [JStr ''inherit'', JStr ''pipe'', JStr ''pipe'']),
              (''silent'', JBool True)]\<rparr>"

text \<open>\<^verbatim>\<open>_.forEach(parsedData, endpoint => _.merge(endpoint, service.platformsh.openMerge))\<close>;
  merging an undefined source changes nothing.\<close>

definition merge_open_data :: "service \<Rightarrow> (string \<times> endpoint) list \<Rightarrow> (string \<times> endpoint) list" where
  "merge_open_data s parsedData =
     (case openMerge s of
        None \<Rightarrow> parsedData
      | Some om \<Rightarrow> map (\<lambda>ke. (fst ke, merge (snd ke) om)) parsedData)"

text \<open>
  One phase-1 probe, from the moment its first \<^verbatim>\<open>lando.engine.run\<close> has been started: the
  engine is run again for every retry (one \<^verbatim>\<open>EngineRun\<close> each), the promise settles, and on
  success the \<^verbatim>\<open>then\<close> callback parses and merges. The callback returns the pair
  \<^verbatim>\<open>[service.name, parsedData]\<close>, or undefined (\<^verbatim>\<open>None\<close>) after logging a parse error.
\<close>

definition open_service ::
  "deps \<Rightarrow> app \<Rightarrow> service \<Rightarrow> event list \<times> (error + (string \<times> (string \<times> endpoint) list) option)" where
  "open_service d a s =
    (let req = service_request a s;
         runs = replicate (attempts (retry_max d) (engine_run d req) 0 - 1) (EngineRun req)
     in case retry (retry_max d) (engine_run d req) 0 of
          Inl e \<Rightarrow> (runs @ [Settled (service_name s) (Inl e)], Inl e)
        | Inr data \<Rightarrow>
          (case parseOpenData d data of
             Inl e \<Rightarrow>
               (runs @ [Settled (service_name s) (Inr data),
                        AppLog ErrorLevel ''could not parse json'' [JStr e, JStr data]],
                Inr None)
           | Inr parsedData \<Rightarrow>
               (runs @ [Settled (service_name s) (Inr data)],
                Inr (Some (service_name s, merge_open_data s parsedData)))))"

text \<open>\<^verbatim>\<open>Promise.map\<close> is rejected as soon as one of its promises is; it is fulfilled with all
  the values, in the order of the input, once every promise is fulfilled. When several
  promises are rejected, the model reports the first of the list.\<close>

fun first_rejection :: "(error + 'a) list \<Rightarrow> error option" where
  "first_rejection [] = None"
| "first_rejection (Inl e # rs) = Some e"
| "first_rejection (Inr x # rs) = first_rejection rs"

fun fulfilled :: "(error + 'a) list \<Rightarrow> 'a list" where
  "fulfilled [] = []"
| "fulfilled (Inl e # rs) = fulfilled rs"
| "fulfilled (Inr x # rs) = x # fulfilled rs"

text \<open>lodash \<^verbatim>\<open>_.fromPairs\<close>: \<^verbatim>\<open>result[pair[0]] = pair[1]\<close> for each pair in turn; reading
  \<^verbatim>\<open>pair[0]\<close> of an undefined pair throws.\<close>

fun fromPairs_into :: "(string \<Rightarrow> 'v option) \<Rightarrow> (string \<times> 'v) option list \<Rightarrow> error + (string \<Rightarrow> 'v option)" where
  "fromPairs_into result [] = Inr result"
| "fromPairs_into result (None # pairs) = Inl (TypeError ''Cannot read property 0 of undefined'')"
| "fromPairs_into result (Some pair # pairs) = fromPairs_into (result(fst pair \<mapsto> snd pair)) pairs"

definition fromPairs :: "(string \<times> 'v) option list \<Rightarrow> error + (string \<Rightarrow> 'v option)" where
  "fromPairs pairs = fromPairs_into Map.empty pairs"

text \<open>One application server: the payload is computed, logged, cached, and the probe started.\<close>

definition open_payload :: "deps \<Rightarrow> (string \<Rightarrow> (string \<times> endpoint) list option) \<Rightarrow> service \<Rightarrow> jv" where
  "open_payload d serviceData appserver =
     generateOpenPayload d serviceData (open_parseRelationships d (relationships appserver))"

definition open_cache_key :: "app \<Rightarrow> service \<Rightarrow> string" where
  "open_cache_key a appserver = app_name a @ ''.'' @ service_name appserver @ ''.open.cache''"

definition open_appserver :: "deps \<Rightarrow> (string \<Rightarrow> (string \<times> endpoint) list option) \<Rightarrow> world \<Rightarrow> nat \<Rightarrow> world" where
  "open_appserver d serviceData w j =
    (let a = the_app w;
         appserver = config_services a ! j;
         openPayload = open_payload d serviceData appserver;
         openCache = open_cache_key a appserver;
         w1 = app_log Verbose ''[object Object] has relationship config'' w;
         w2 = emit (AppLog Verbose (''generated open payload for '' @ service_name appserver) [openPayload]) w1;
         w3 = cache_set openCache (CVal openPayload) w2;
         w4 = app_log Debug (''cached open payload data to '' @ openCache) w3
     in emit (EngineRun (appserver_request d a appserver openPayload)) w4)"

definition post_init_open :: "deps \<Rightarrow> world \<Rightarrow> world" where
  "post_init_open d w =
    (let ss = config_services (the_app w);
         services = nonApplicationServices d ss;
         appservers = applicationServices d ss;
         w1 = app_log Verbose ''preparing to OPEN up platformsh containers...'' w;
         w2 = emit (AppLog Debug ''found platformsh services to open''
                      [JArr (map (\<lambda>i. JStr (service_name (ss ! i))) services)]) w1;
         w3 = emit (AppLog Debug ''found platformsh appservers to open''
                      [JArr (map (\<lambda>i. JStr (service_name (ss ! i))) appservers)]) w2
     in events_on ''post-start'' (Some 8) (PostStartOpen services appservers) w3)"

text \<open>
  The phase-1 probes run concurrently, and which settles first is not decided by the
  code. \<^verbatim>\<open>schedule picks pending\<close> is the order in which the pending probes settle: each
  number of \<^verbatim>\<open>picks\<close> selects one of those still pending, and without further picks the
  rest settles in list order. Whatever \<^verbatim>\<open>picks\<close> is, every probe settles exactly once.
\<close>

fun schedule :: "nat list \<Rightarrow> 'a list \<Rightarrow> 'a list" where
  "schedule picks [] = []"
| "schedule [] pending = pending"
| "schedule (p # picks) pending =
     pending ! (p mod length pending)
       # schedule picks (take (p mod length pending) pending @ drop (Suc (p mod length pending)) pending)"

text \<open>
  The handler itself. \<^verbatim>\<open>Promise.map\<close> calls its function for every service in turn, which
  starts every probe; then the probes settle in some order, each followed by its \<^verbatim>\<open>then\<close>
  callback. The values are collected in the order of \<^verbatim>\<open>services\<close>. The second \<^verbatim>\<open>then\<close>
  callback (phase 2) runs only if \<^verbatim>\<open>Promise.map\<close> is fulfilled.
\<close>

definition phase1_events :: "deps \<Rightarrow> app \<Rightarrow> nat list \<Rightarrow> nat list \<Rightarrow> event list" where
  "phase1_events d a picks services =
     map (\<lambda>i. EngineRun (service_request a (config_services a ! i))) services
     @ concat (map (\<lambda>i. fst (open_service d a (config_services a ! i))) (schedule picks services))"

definition phase1_results ::
  "deps \<Rightarrow> app \<Rightarrow> nat list \<Rightarrow> (error + (string \<times> (string \<times> endpoint) list) option) list" where
  "phase1_results d a services = map (\<lambda>i. snd (open_service d a (config_services a ! i))) services"

definition post_start_open :: "deps \<Rightarrow> nat list \<Rightarrow> nat list \<Rightarrow> nat list \<Rightarrow> world \<Rightarrow> error option \<times> world" where
  "post_start_open d picks services appservers w =
    (let a = the_app w;
         w1 = w\<lparr>trace := trace w @ phase1_events d a picks services\<rparr>;
         results = phase1_results d a services
     in case first_rejection results of
          Some e \<Rightarrow> (Some e, w1)
        | None \<Rightarrow>
          (case fromPairs (fulfilled results) of
             Inl e \<Rightarrow> (Some e, w1)
           | Inr serviceData \<Rightarrow>
             let w2 = app_log Debug ''collected open data from platform services'' w1;
                 w3 = foldl (open_appserver d serviceData) w2 appservers
             in (first_rejection
                   (map (\<lambda>j. engine_run d
                                (appserver_request d a (config_services a ! j)
                                   (open_payload d serviceData (config_services a ! j))) 0)
                      appservers),
                 w3)))"

section \<open>Collaborators modelled from the specification\<close>

text \<open>
  Modelled from the spec: \<^verbatim>\<open>utils.sortTokens\<close> (\<^verbatim>\<open>./lib/utils\<close>) is missing. The
  specification's TokenCache \<^verbatim>\<open>merge(existing, incoming)\<close>: "incoming and existing lists are
  concatenated, deduplicated by identity, and the result is sorted by recency descending",
  and "the newest record for a given identity wins on conflict". The identity is the
  \<^verbatim>\<open>email\<close>, the recency the \<^verbatim>\<open>date\<close>. Of two records of one identity with the same date the
  later one in the concatenation is kept, and the sort is stable; the specification
  leaves both open.
\<close>

fun newest :: "credential \<Rightarrow> credential list \<Rightarrow> credential" where
  "newest c [] = c"
| "newest c (x # xs) = (if email x = email c \<and> date c \<le> date x then newest x xs else newest c xs)"

fun dedupe :: "credential list \<Rightarrow> credential list" where
  "dedupe [] = []"
| "dedupe (c # cs) = newest c cs # dedupe (filter (\<lambda>x. email x \<noteq> email c) cs)"

definition sortTokens_spec :: "credential list \<Rightarrow> credential list \<Rightarrow> credential list" where
  "sortTokens_spec existing incoming = sort_key (\<lambda>c. - date c) (dedupe (existing @ incoming))"

text \<open>
  Modelled from the spec: \<^verbatim>\<open>open.parseRelationships\<close> and \<^verbatim>\<open>open.generateOpenPayload\<close>
  (\<^verbatim>\<open>./lib/open\<close>) are missing. An application declares relationships by name, each bound to
  a service; the payload is built "by looking up, for every relationship name the
  application declares, the corresponding entries in the phase-1 result mapping", and is
  "a mapping from relationship name to list of endpoint descriptors". The parsed data of
  a service is the collection of its endpoint descriptors, each under its relationship
  name.
\<close>

definition parseRelationships_spec :: "(string \<times> string) list \<Rightarrow> (string \<times> string) list" where
  "parseRelationships_spec rels = rels"

definition generateOpenPayload_spec ::
  "(string \<Rightarrow> (string \<times> endpoint) list option) \<Rightarrow> (string \<times> string) list \<Rightarrow> jv" where
  "generateOpenPayload_spec serviceData rels =
     JObj (map (\<lambda>r. (fst r,
                      case serviceData (snd r) of
                        None \<Rightarrow> JUndefined
                      | Some eps \<Rightarrow> JArr (map (\<lambda>ke. JObj (snd ke)) (filter (\<lambda>ke. fst ke = fst r) eps))))
               rels)"

section \<open>An example installation\<close>

text \<open>The application \<^verbatim>\<open>myapp\<close>: a backing service \<^verbatim>\<open>db\<close> of type \<^verbatim>\<open>mysql\<close>, version \<^verbatim>\<open>10\<close>,
  and an application server \<^verbatim>\<open>web\<close> that declares the relationship \<^verbatim>\<open>database\<close>, bound to
  \<^verbatim>\<open>db\<close>.\<close>

definition example_db :: service where
  "example_db =
     \<lparr>service_name = ''db'', version = Some ''10'', psh_type = Some ''mysql'',
      psh_hostname = JStr ''database.internal'', opener = ''{}'', relationships = [],
      openMerge = None\<rparr>"

definition example_web :: service where
  "example_web =
     \<lparr>service_name = ''web'', version = None, psh_type = Some ''php'',
      psh_hostname = JUndefined, opener = ''{}'', relationships = [(''database'', ''db'')],
      openMerge = None\<rparr>"

definition example_app :: app where
  "example_app =
     \<lparr>app_id = ''myapp'', app_name = ''myapp'', root = ''/app'', project = ''myapp'',
      recipe = Some ''platformsh'', config_id = None,
      config_services = [example_db, example_web],
      userConfRoot = ''/home/me/.lando'', conf_domain = ''lndo.site'',
      configPath = None, platformsh = None, preLockfile = ''myapp.build.lock'',
      compose = JArr [], events = []\<rparr>"

definition example_world :: world where
  "example_world = \<lparr>the_app = example_app, cache = Map.empty, fs = Map.empty, trace = []\<rparr>"

text \<open>The probe output \<^verbatim>\<open>{"database":[{"host":"x"}]}\<close>.\<close>

definition example_output :: string where
  "example_output =
     ''{'' @ [CHR 0x22] @ ''database'' @ [CHR 0x22] @ '':[{'' @ [CHR 0x22] @ ''host'' @ [CHR 0x22]
       @ '':'' @ [CHR 0x22] @ ''x'' @ [CHR 0x22] @ ''}]}''"

definition example_config :: raw_config where
  "example_config =
     \<lparr>raw_applications = JArr [JObj [(''name'', JStr ''web'')]],
      raw_applicationFiles = JArr [JStr ''/app/.platform.app.yaml''],
      raw_routes = JObj [], raw_services = JObj [(''db'', JObj [(''type'', JStr ''mysql:10'')])]\<rparr>"

definition example_deps :: deps where
  "example_deps =
     \<lparr>loadConfigFiles = (\<lambda>r. example_config),
      parseRoutes = (\<lambda>r dom. r),
      parseApps = (\<lambda>as fs. [\<lparr>application_name = ''web'', configFile = ''/app/.platform.app.yaml''\<rparr>]),
      findClosestApplication = Some ''/app/.platform.app.yaml'',
      parseRelationships = (\<lambda>as oc. JObj []),
      parseServices = (\<lambda>ss rels. ss),
      buildRunConfig = (\<lambda>a. [\<lparr>rc_service = ''db'', rc_file = ''/conf/db.json'', rc_data = JObj []\<rparr>,
                              \<lparr>rc_service = ''web'', rc_file = ''/conf/web.json'', rc_data = JObj []\<rparr>]),
      isApplication = (\<lambda>s. service_name s = ''web''),
      sortTokens = sortTokens_spec,
      getIPAddress = (\<lambda>data network. JStr ''10.0.0.5''),
      parseOpenData = (\<lambda>out. if out = example_output
                              then Inr [(''database'', [(''host'', JStr ''x'')])]
                              else Inl ''SyntaxError''),
      open_parseRelationships = parseRelationships_spec,
      generateOpenPayload = generateOpenPayload_spec,
      getAccountInfo = (\<lambda>t. Inr ''a@x.com''),
      engine_run = (\<lambda>r n. Inr example_output),
      engine_scan = (\<lambda>i. Inr JNull),
      retry_max = 5,
      path_join = (\<lambda>ps. concat (map (\<lambda>p. ''/'' @ p) ps)),
      JSON_stringify = (\<lambda>v. ''{}'')\<rparr>"

text \<open>The example after the module was loaded, and after \<^verbatim>\<open>pre-init\<close> ran.\<close>

definition example_installed :: world where
  "example_installed = module_exports example_deps example_world"

definition example_initialised :: world where
  "example_initialised = snd (pre_init example_deps example_installed)"

text \<open>The example after the \<^verbatim>\<open>post-start\<close> scan of its backing service, and the outcome of the
  OPEN handler there; \<^verbatim>\<open>example_openMerge\<close> and \<^verbatim>\<open>example_payload\<close> are what they compute.\<close>

definition example_scanned :: world where
  "example_scanned = snd (post_start_scan example_deps [0] example_initialised)"

definition example_opened :: "error option \<times> world" where
  "example_opened = post_start_open example_deps [] [0] [1] example_scanned"

definition example_openMerge :: endpoint where
  "example_openMerge =
     [(''cluster'', JStr ''bespin''), (''fragment'', JNull),
      (''hostname'', JStr ''myapp.db.service._.lndo.site''), (''ip'', JStr ''10.0.0.5''),
      (''rel'', JStr ''database.internal''), (''service'', JStr ''db''), (''type'', JStr ''mysql:10'')]"

definition example_payload :: jv where
  "example_payload =
     JObj [(''database'',
            JArr [JObj [(''host'', JStr ''x''), (''cluster'', JStr ''bespin''), (''fragment'', JNull),
                        (''hostname'', JStr ''myapp.db.service._.lndo.site''), (''ip'', JStr ''10.0.0.5''),
                        (''rel'', JStr ''database.internal''), (''service'', JStr ''db''),
                        (''type'', JStr ''mysql:10'')]])]"

text \<open>A second backing service, \<^verbatim>\<open>redis\<close>, whose probe prints something that is not JSON.\<close>

definition example_redis :: service where
  "example_redis =
     \<lparr>service_name = ''redis'', version = Some ''5'', psh_type = Some ''redis'',
      psh_hostname = JStr ''cache.internal'', opener = ''{}'', relationships = [],
      openMerge = None\<rparr>"

definition garbled_deps :: deps where
  "garbled_deps =
     example_deps\<lparr>engine_run := (\<lambda>r n. if run_id r = ''myapp_redis_1''
                                         then Inr ''Warning: no data''
                                         else Inr example_output)\<rparr>"

definition garbled_world :: world where
  "garbled_world =
     \<lparr>the_app = example_app\<lparr>config_services :=
                   [example_db\<lparr>openMerge := Some example_openMerge\<rparr>, example_redis, example_web]\<rparr>,
      cache = Map.empty, fs = Map.empty, trace = []\<rparr>"

text \<open>An installation without any application definition, and one where the closest
  application cannot be determined.\<close>

definition no_apps_deps :: deps where
  "no_apps_deps =
     example_deps\<lparr>loadConfigFiles := (\<lambda>r. example_config\<lparr>raw_applications := JArr [],
                                                          raw_applicationFiles := JArr []\<rparr>),
                  parseApps := (\<lambda>as fs. [])\<rparr>"

definition no_apps_installed :: world where
  "no_apps_installed = module_exports no_apps_deps example_world"

definition lost_deps :: deps where
  "lost_deps = example_deps\<lparr>findClosestApplication := None\<rparr>"

definition lost_installed :: world where
  "lost_installed = module_exports lost_deps example_world"


section \<open>Observations on traces\<close>

text \<open>The files written in a stretch of the trace, with their contents, in order.\<close>

fun writes :: "event list \<Rightarrow> (string \<times> string) list" where
  "writes [] = []"
| "writes (WriteFile f c # es) = (f, c) # writes es"
| "writes (e # es) = writes es"

text \<open>What a handler added to the trace.\<close>

definition new_events :: "world \<Rightarrow> world \<Rightarrow> event list" where
  "new_events w w' = drop (length (trace w)) (trace w')"

text \<open>The two kinds of probe differ in their options: only the request sent to an
  application server has \<^verbatim>\<open>hijack: false\<close>.\<close>

definition is_appserver_probe :: "run_request \<Rightarrow> bool" where
  "is_appserver_probe r = (map_of (opts r) ''hijack'' = Some (JBool False))"

text \<open>The events of one application server in phase 2, as \<^verbatim>\<open>open_appserver\<close> emits them.\<close>

definition appserver_events :: "deps \<Rightarrow> (string \<Rightarrow> (string \<times> endpoint) list option) \<Rightarrow> app \<Rightarrow> nat \<Rightarrow> event list" where
  "appserver_events d serviceData a j =
    (let appserver = config_services a ! j;
         openPayload = open_payload d serviceData appserver
     in [AppLog Verbose ''[object Object] has relationship config'' [],
         AppLog Verbose (''generated open payload for '' @ service_name appserver) [openPayload],
         CacheSet (open_cache_key a appserver) (CVal openPayload),
         AppLog Debug (''cached open payload data to '' @ open_cache_key a appserver) [],
         EngineRun (appserver_request d a appserver openPayload)])"

section \<open>Properties\<close>

subsection \<open>The example, evaluated\<close>

lemmas example_defs = example_world_def example_app_def example_deps_def example_config_def
  example_db_def example_web_def

lemmas effect_defs = emit_def app_log_def events_on_def cache_set_def existsSync_def mkdirp_sync_def
  writeFileSync_def set_platformsh_def

lemmas example_initialised_defs = example_initialised_def example_installed_def
  module_exports_def pre_init_def example_defs effect_defs cached_tokens_def Let_def

lemma example_installed_events:
  "map fst (events (the_app example_installed)) =
     [''pre-init'', ''post-pull'', ''post-push'', ''post-init'', ''post-init'', ''post-init'']"
  by (simp add: example_installed_def module_exports_def example_defs effect_defs cached_tokens_def Let_def)

lemma example_pre_init_ok: "fst (pre_init example_deps example_installed) = None"
  by (simp add: example_installed_def module_exports_def pre_init_def example_defs effect_defs
        cached_tokens_def Let_def)

lemma example_initialised_cache: "cache example_initialised = Map.empty"
  by (simp add: example_initialised_defs)

lemma example_initialised_runConfig:
  "app_runConfig example_initialised =
     [\<lparr>rc_service = ''db'', rc_file = ''/conf/db.json'', rc_data = JObj []\<rparr>,
      \<lparr>rc_service = ''web'', rc_file = ''/conf/web.json'', rc_data = JObj []\<rparr>]"
  by (simp add: app_runConfig_def example_initialised_defs)

lemma example_initialised_preLockfile:
  "preLockfile (the_app example_initialised) = ''myapp.build.lock''"
  by (simp add: example_initialised_defs)

lemma example_services: "nonApplicationServices example_deps (config_services (the_app example_initialised)) = [0]"
  "applicationServices example_deps (config_services (the_app example_initialised)) = [1]"
  by (simp_all add: nonApplicationServices_def applicationServices_def example_initialised_defs upt_rec)

lemma example_initialised_services:
  "config_services (the_app example_initialised) = [example_db, example_web]"
  "app_name (the_app example_initialised) = ''myapp''"
  "project (the_app example_initialised) = ''myapp''"
  "compose (the_app example_initialised) = JArr []"
  by (simp_all add: example_initialised_defs)

lemma example_scan_ok: "fst (post_start_scan example_deps [0] example_initialised) = None"
  by (simp add: post_start_scan_def scan_service_def example_initialised_services Let_def
        example_deps_def example_db_def)

lemma example_scanned_services:
  "config_services (the_app example_scanned) = [example_db\<lparr>openMerge := Some example_openMerge\<rparr>, example_web]"
  "app_name (the_app example_scanned) = ''myapp''"
  "project (the_app example_scanned) = ''myapp''"
  "compose (the_app example_scanned) = JArr []"
  by (simp_all add: example_scanned_def post_start_scan_def scan_service_def example_initialised_services Let_def
       example_deps_def example_db_def make_openMerge_def join_colon_def example_openMerge_def)


lemma example_open_service:
  "open_service example_deps (the_app example_scanned) (example_db\<lparr>openMerge := Some example_openMerge\<rparr>) =
     ([Settled ''db'' (Inr example_output)],
      Inr (Some (''db'', [(''database'', [(''host'', JStr ''x''), (''cluster'', JStr ''bespin''), (''fragment'', JNull),
                        (''hostname'', JStr ''myapp.db.service._.lndo.site''), (''ip'', JStr ''10.0.0.5''),
                        (''rel'', JStr ''database.internal''), (''service'', JStr ''db''),
                        (''type'', JStr ''mysql:10'')])])))"
  by (simp add: open_service_def Let_def example_deps_def eval_nat_numeral merge_open_data_def
        merge_def assignMergeValue_def example_openMerge_def example_db_def)

lemma example_opened_result: "fst example_opened = None"
  by (simp add: example_opened_def post_start_open_def phase1_results_def example_scanned_services
        example_open_service fromPairs_def Let_def)
     (simp add: example_deps_def)

lemma example_opened_events:
  "new_events example_scanned (snd example_opened) =
     [EngineRun (service_request (the_app example_scanned) (example_db\<lparr>openMerge := Some example_openMerge\<rparr>)),
      Settled ''db'' (Inr example_output),
      AppLog Debug ''collected open data from platform services'' [],
      AppLog Verbose ''[object Object] has relationship config'' [],
      AppLog Verbose ''generated open payload for web'' [example_payload],
      CacheSet ''myapp.web.open.cache'' (CVal example_payload),
      AppLog Debug ''cached open payload data to myapp.web.open.cache'' [],
      EngineRun (appserver_request example_deps (the_app example_scanned) example_web example_payload)]"
  by (simp add: example_opened_def post_start_open_def phase1_results_def phase1_events_def
        example_scanned_services example_open_service fromPairs_def Let_def new_events_def
        open_appserver_def effect_defs open_payload_def open_cache_key_def)
     (simp add: example_deps_def example_web_def generateOpenPayload_spec_def parseRelationships_spec_def
        example_payload_def)

subsection \<open>Apps of another recipe\<close>

text \<open>
  Claim C10. For an app whose \<^verbatim>\<open>config.recipe\<close> is not \<^verbatim>\<open>platformsh\<close> the module does
  nothing: the world after the call is the world before it, so no handler is registered
  (\<^verbatim>\<open>events\<close>), no directory is created (\<^verbatim>\<open>fs\<close>), nothing is logged (\<^verbatim>\<open>trace\<close>) and every
  field of the app object is as it was.
\<close>

theorem module_exports_other_recipe:
  "recipe (the_app w) \<noteq> Some ''platformsh'' \<Longrightarrow> module_exports d w = w"
  by (simp add: module_exports_def)

theorem module_exports_other_recipe_witness:
  "recipe (the_app (example_world\<lparr>the_app := example_app\<lparr>recipe := Some ''drupal9''\<rparr>\<rparr>)) \<noteq> Some ''platformsh''
   \<and> module_exports example_deps (example_world\<lparr>the_app := example_app\<lparr>recipe := Some ''drupal9''\<rparr>\<rparr>)
       = example_world\<lparr>the_app := example_app\<lparr>recipe := Some ''drupal9''\<rparr>\<rparr>"
proof -
  have h: "recipe (the_app (example_world\<lparr>the_app := example_app\<lparr>recipe := Some ''drupal9''\<rparr>\<rparr>)) \<noteq> Some ''platformsh''"
    by simp
  show ?thesis
    using h module_exports_other_recipe [OF h, of example_deps] by simp
qed

subsection \<open>The run config is dumped on a first start only\<close>

lemma trace_dump_run_config:
  "trace (dump_run_config d w s) =
     trace w @ [WriteFile (rc_file s) (JSON_stringify d (rc_data s)),
                AppLog Debug (''dumped platform config file for '' @ rc_service s @ '' to '' @ rc_file s) []]"
  by (simp add: dump_run_config_def app_log_def emit_def writeFileSync_def)

lemma trace_foldl_dump:
  "trace (foldl (dump_run_config d) w rs) =
     trace w @ concat (map (\<lambda>s. [WriteFile (rc_file s) (JSON_stringify d (rc_data s)),
                AppLog Debug (''dumped platform config file for '' @ rc_service s @ '' to '' @ rc_file s) []]) rs)"
  by (induction rs arbitrary: w) (simp_all add: trace_dump_run_config)

lemma writes_dump_events:
  "writes (concat (map (\<lambda>s. [WriteFile (rc_file s) (JSON_stringify d (rc_data s)),
                AppLog Debug (msg s) []]) rs)) = map (\<lambda>s. (rc_file s, JSON_stringify d (rc_data s))) rs"
  by (induction rs) simp_all

lemma fs_dump_run_config:
  "fs (dump_run_config d w s) = (fs w)(rc_file s \<mapsto> File (JSON_stringify d (rc_data s)))"
  by (simp add: dump_run_config_def app_log_def emit_def writeFileSync_def)

lemma fs_foldl_dump_other:
  "f \<notin> rc_file ` set rs \<Longrightarrow> fs (foldl (dump_run_config d) w rs) f = fs w f"
  by (induction rs arbitrary: w) (simp_all add: fs_dump_run_config)

lemma fs_foldl_dump_written:
  "s \<in> set rs \<Longrightarrow> \<exists>s' \<in> set rs. rc_file s' = rc_file s \<and>
     fs (foldl (dump_run_config d) w rs) (rc_file s) = Some (File (JSON_stringify d (rc_data s')))"
proof (induction rs arbitrary: w s)
  case Nil
  then show ?case by simp
next
  case (Cons r rs)
  show ?case
  proof (cases "rc_file s \<in> rc_file ` set rs")
    case True
    then obtain s2 where s2: "s2 \<in> set rs" "rc_file s2 = rc_file s" by auto
    from Cons.IH [OF s2(1), of "dump_run_config d w r"] s2(2)
    show ?thesis by auto
  next
    case False
    with Cons.prems have eq: "s = r" by auto
    from False show ?thesis
      by (simp add: eq fs_foldl_dump_other fs_dump_run_config)
  qed
qed

text \<open>
  Claim C9. The \<^verbatim>\<open>pre-start\<close> handler writes the run config only on a first start. When
  nothing is stored under \<^verbatim>\<open>app.preLockfile\<close>, it writes exactly one file per entry of
  \<^verbatim>\<open>app.platformsh.runConfig\<close>, in order, each holding the serialised data of an entry for
  that file. When the marker is there (a truthy value under \<^verbatim>\<open>app.preLockfile\<close>), the
  handler leaves the world as it is: no file is written or overwritten.
\<close>

theorem run_config_written_only_without_marker:
  "(cache w (preLockfile (the_app w)) = None \<longrightarrow>
      writes (new_events w (pre_start_run_config d w))
        = map (\<lambda>s. (rc_file s, JSON_stringify d (rc_data s))) (app_runConfig w)
      \<and> (\<forall>s \<in> set (app_runConfig w). \<exists>s' \<in> set (app_runConfig w). rc_file s' = rc_file s \<and>
            fs (pre_start_run_config d w) (rc_file s) = Some (File (JSON_stringify d (rc_data s')))))
   \<and> (cache_truthy (cache w (preLockfile (the_app w))) \<longrightarrow>
        pre_start_run_config d w = w \<and> writes (new_events w (pre_start_run_config d w)) = [])"
proof (intro conjI impI ballI)
  assume a: "cache w (preLockfile (the_app w)) = None"
  show "writes (new_events w (pre_start_run_config d w))
        = map (\<lambda>s. (rc_file s, JSON_stringify d (rc_data s))) (app_runConfig w)"
    using a by (simp add: pre_start_run_config_def new_events_def trace_foldl_dump writes_dump_events)
next
  fix s assume a: "cache w (preLockfile (the_app w)) = None" and s: "s \<in> set (app_runConfig w)"
  show "\<exists>s' \<in> set (app_runConfig w). rc_file s' = rc_file s \<and>
            fs (pre_start_run_config d w) (rc_file s) = Some (File (JSON_stringify d (rc_data s')))"
    using a fs_foldl_dump_written [OF s] by (simp add: pre_start_run_config_def)
next
  assume "cache_truthy (cache w (preLockfile (the_app w)))"
  then show "pre_start_run_config d w = w" by (simp add: pre_start_run_config_def)
next
  assume "cache_truthy (cache w (preLockfile (the_app w)))"
  then show "writes (new_events w (pre_start_run_config d w)) = []"
    by (simp add: pre_start_run_config_def new_events_def)
qed

theorem run_config_written_only_without_marker_witness:
  "cache example_initialised (preLockfile (the_app example_initialised)) = None
   \<and> writes (new_events example_initialised (pre_start_run_config example_deps example_initialised))
       = [(''/conf/db.json'', ''{}''), (''/conf/web.json'', ''{}'')]
   \<and> fs (pre_start_run_config example_deps example_initialised) ''/conf/web.json'' = Some (File ''{}'')
   \<and> cache_truthy (cache (example_initialised\<lparr>cache := [''myapp.build.lock'' \<mapsto> CVal (JStr ''2a6f'')]\<rparr>)
         (preLockfile (the_app (example_initialised\<lparr>cache := [''myapp.build.lock'' \<mapsto> CVal (JStr ''2a6f'')]\<rparr>))))
   \<and> pre_start_run_config example_deps (example_initialised\<lparr>cache := [''myapp.build.lock'' \<mapsto> CVal (JStr ''2a6f'')]\<rparr>)
       = example_initialised\<lparr>cache := [''myapp.build.lock'' \<mapsto> CVal (JStr ''2a6f'')]\<rparr>"
proof -
  have first: "cache example_initialised (preLockfile (the_app example_initialised)) = None"
    by (simp add: example_initialised_cache)
  have again: "cache_truthy (cache (example_initialised\<lparr>cache := [''myapp.build.lock'' \<mapsto> CVal (JStr ''2a6f'')]\<rparr>)
         (preLockfile (the_app (example_initialised\<lparr>cache := [''myapp.build.lock'' \<mapsto> CVal (JStr ''2a6f'')]\<rparr>))))"
    by (simp add: example_initialised_preLockfile)
  have web: "\<lparr>rc_service = ''web'', rc_file = ''/conf/web.json'', rc_data = JObj []\<rparr>
               \<in> set (app_runConfig example_initialised)"
    by (simp add: example_initialised_runConfig)
  from run_config_written_only_without_marker [of example_initialised example_deps] first
  have w1: "writes (new_events example_initialised (pre_start_run_config example_deps example_initialised))
       = [(''/conf/db.json'', ''{}''), (''/conf/web.json'', ''{}'')]"
    and f1: "\<forall>s \<in> set (app_runConfig example_initialised). \<exists>s' \<in> set (app_runConfig example_initialised).
               rc_file s' = rc_file s \<and>
               fs (pre_start_run_config example_deps example_initialised) (rc_file s)
                 = Some (File (JSON_stringify example_deps (rc_data s')))"
    by (simp_all add: example_initialised_runConfig example_deps_def)
  from f1 web have f2: "fs (pre_start_run_config example_deps example_initialised) ''/conf/web.json'' = Some (File ''{}'')"
    by (auto simp add: example_initialised_runConfig example_deps_def)
  from run_config_written_only_without_marker
         [of "example_initialised\<lparr>cache := [''myapp.build.lock'' \<mapsto> CVal (JStr ''2a6f'')]\<rparr>" example_deps] again
  have w2: "pre_start_run_config example_deps (example_initialised\<lparr>cache := [''myapp.build.lock'' \<mapsto> CVal (JStr ''2a6f'')]\<rparr>)
       = example_initialised\<lparr>cache := [''myapp.build.lock'' \<mapsto> CVal (JStr ''2a6f'')]\<rparr>"
    by blast
  from first w1 f2 again w2 show ?thesis by blast
qed

subsection \<open>The OPEN handler: order of events\<close>

lemma the_app_open_appserver: "the_app (open_appserver d sd w j) = the_app w"
  by (simp add: open_appserver_def effect_defs Let_def)

lemma trace_open_appserver:
  "trace (open_appserver d sd w j) = trace w @ appserver_events d sd (the_app w) j"
  by (simp add: open_appserver_def appserver_events_def effect_defs Let_def)

lemma the_app_foldl_open_appserver: "the_app (foldl (open_appserver d sd) w js) = the_app w"
  by (induction js arbitrary: w) (simp_all add: the_app_open_appserver)

lemma trace_foldl_open_appserver:
  "trace (foldl (open_appserver d sd) w js) =
     trace w @ concat (map (appserver_events d sd (the_app w)) js)"
  by (induction js arbitrary: w) (simp_all add: trace_open_appserver the_app_open_appserver)

lemma first_rejection_None: "first_rejection rs = None \<Longrightarrow> r \<in> set rs \<Longrightarrow> \<exists>x. r = Inr x"
  by (induction rs rule: first_rejection.induct) auto

lemma open_service_settled:
  "snd (open_service d a s) = Inr x \<Longrightarrow>
     \<exists>out. Settled (service_name s) (Inr out) \<in> set (fst (open_service d a s))"
  by (auto simp add: open_service_def Let_def split: sum.splits)

lemma open_service_no_appserver_probe:
  "EngineRun req \<in> set (fst (open_service d a s)) \<Longrightarrow> \<not> is_appserver_probe req"
  by (auto simp add: open_service_def Let_def is_appserver_probe_def service_request_def split: sum.splits)

lemma set_schedule: "set (schedule picks pending) = set pending"
proof (induction picks pending rule: schedule.induct)
  case (1 picks)
  show ?case by simp
next
  case (2 v va)
  show ?case by simp
next
  case (3 p picks v va)
  let ?xs = "v # va"
  let ?i = "p mod length ?xs"
  have i: "?i < length ?xs" by simp
  have "set ?xs = set (take ?i ?xs @ ?xs ! ?i # drop (Suc ?i) ?xs)"
    using id_take_nth_drop [OF i] by simp
  with 3 show ?case by auto
qed

lemma schedule_single: "schedule picks [x] = [x]"
  by (cases picks) simp_all

lemma service_request_no_appserver_probe: "\<not> is_appserver_probe (service_request a s)"
  by (simp add: is_appserver_probe_def service_request_def)

lemma phase1_no_appserver_probe:
  "EngineRun req \<in> set (phase1_events d a picks services) \<Longrightarrow> \<not> is_appserver_probe req"
  by (auto simp add: phase1_events_def service_request_no_appserver_probe
        dest: open_service_no_appserver_probe)

lemma split_after_prefix:
  "xs @ ys = pre @ e # post \<Longrightarrow> e \<notin> set xs \<Longrightarrow> \<exists>pre'. pre = xs @ pre' \<and> ys = pre' @ e # post"
  by (auto simp add: append_eq_append_conv2 append_eq_Cons_conv)

lemma in_concat_blocks:
  "concat (map f js) = pre @ e # post \<Longrightarrow>
     \<exists>j \<in> set js. \<exists>p1 p2 q. f j = p2 @ e # q \<and> pre = p1 @ p2"
proof (induction js arbitrary: pre)
  case Nil
  then show ?case by simp
next
  case (Cons j js)
  show ?case
  proof (cases "e \<in> set (f j) \<and> length pre < length (f j)")
    case True
    from Cons.prems have "f j @ concat (map f js) = pre @ e # post" by simp
    with True obtain q where "f j = pre @ e # q"
      by (auto simp add: append_eq_append_conv2 append_eq_Cons_conv)
    then show ?thesis by auto
  next
    case False
    from Cons.prems have eq: "f j @ concat (map f js) = pre @ e # post" by simp
    from eq False obtain pre' where p: "pre = f j @ pre'" "concat (map f js) = pre' @ e # post"
      by (auto simp add: append_eq_append_conv2 append_eq_Cons_conv)
    from Cons.IH [OF p(2)] obtain j' p1 p2 q where "j' \<in> set js" "f j' = p2 @ e # q" "pre' = p1 @ p2"
      by blast
    with p(1) show ?thesis by (intro bexI [of _ j'] exI [of _ "f j @ p1"] exI [of _ p2] exI [of _ q]) auto
  qed
qed


lemma post_start_open_cases:
  assumes "post_start_open d picks services appservers w = (r, w')"
  shows "new_events w w' = phase1_events d (the_app w) picks services
       \<or> (\<exists>serviceData.
             first_rejection (phase1_results d (the_app w) services) = None
           \<and> fromPairs (fulfilled (phase1_results d (the_app w) services)) = Inr serviceData
           \<and> new_events w w' =
               phase1_events d (the_app w) picks services
               @ AppLog Debug ''collected open data from platform services'' []
               # concat (map (appserver_events d serviceData (the_app w)) appservers))"
  using assms
  by (auto simp add: post_start_open_def new_events_def Let_def trace_foldl_open_appserver
        app_log_def emit_def split: option.splits sum.splits)

lemma appserver_events_probe:
  "appserver_events d sd a j = p2 @ EngineRun req # q \<Longrightarrow>
     req = appserver_request d a (config_services a ! j) (open_payload d sd (config_services a ! j))
   \<and> CacheSet (open_cache_key a (config_services a ! j))
        (CVal (open_payload d sd (config_services a ! j))) \<in> set p2"
  by (auto simp add: appserver_events_def Let_def Cons_eq_append_conv)

lemma appserver_probe_position:
  assumes run: "post_start_open d picks services appservers w = (r, w')"
      and ev: "new_events w w' = pre @ EngineRun req # post"
      and probe: "is_appserver_probe req"
  shows "\<exists>serviceData pre' j.
           first_rejection (phase1_results d (the_app w) services) = None
         \<and> fromPairs (fulfilled (phase1_results d (the_app w) services)) = Inr serviceData
         \<and> pre = phase1_events d (the_app w) picks services @ pre'
         \<and> j \<in> set appservers
         \<and> req = appserver_request d (the_app w) (config_services (the_app w) ! j)
                   (open_payload d serviceData (config_services (the_app w) ! j))
         \<and> CacheSet (open_cache_key (the_app w) (config_services (the_app w) ! j))
              (CVal (open_payload d serviceData (config_services (the_app w) ! j))) \<in> set pre'"
proof -
  let ?a = "the_app w"
  let ?p1 = "phase1_events d ?a picks services"
  have notin: "EngineRun req \<notin> set ?p1"
    using probe phase1_no_appserver_probe by blast
  from post_start_open_cases [OF run]
  show ?thesis
  proof
    assume "new_events w w' = ?p1"
    with ev notin show ?thesis by (metis in_set_conv_decomp)
  next
    assume "\<exists>serviceData.
             first_rejection (phase1_results d ?a services) = None
           \<and> fromPairs (fulfilled (phase1_results d ?a services)) = Inr serviceData
           \<and> new_events w w' =
               ?p1 @ AppLog Debug ''collected open data from platform services'' []
               # concat (map (appserver_events d serviceData ?a) appservers)"
    then obtain sd where ok: "first_rejection (phase1_results d ?a services) = None"
      and sd: "fromPairs (fulfilled (phase1_results d ?a services)) = Inr sd"
      and tr: "new_events w w' =
               ?p1 @ AppLog Debug ''collected open data from platform services'' []
               # concat (map (appserver_events d sd ?a) appservers)"
      by blast
    from tr ev have "?p1 @ (AppLog Debug ''collected open data from platform services'' []
               # concat (map (appserver_events d sd ?a) appservers)) = pre @ EngineRun req # post"
      by simp
    from split_after_prefix [OF this notin] obtain pre1 where
      p1: "pre = ?p1 @ pre1"
      and r1: "AppLog Debug ''collected open data from platform services'' []
               # concat (map (appserver_events d sd ?a) appservers) = pre1 @ EngineRun req # post"
      by blast
    from r1 obtain pre2 where p2: "pre1 = AppLog Debug ''collected open data from platform services'' [] # pre2"
      and r2: "concat (map (appserver_events d sd ?a) appservers) = pre2 @ EngineRun req # post"
      by (cases pre1) auto
    from in_concat_blocks [OF r2] obtain j q1 q2 q where j: "j \<in> set appservers"
      and blk: "appserver_events d sd ?a j = q2 @ EngineRun req # q" and p3: "pre2 = q1 @ q2"
      by blast
    from appserver_events_probe [OF blk] p1 p2 p3 j ok sd show ?thesis
      by auto
  qed
qed

text \<open>
  Claim C7. Whenever the OPEN handler runs the open probe on an application server, it
  has already stored the payload it passes to that probe in the cache, under the key
  \<^verbatim>\<open><app>.<appserver>.open.cache\<close>: in the handler's trace the \<^verbatim>\<open>lando.cache.set\<close> of that key and
  payload comes before the \<^verbatim>\<open>lando.engine.run\<close> of that application server.
\<close>

theorem open_payload_cached_before_probe:
  assumes "post_start_open d picks services appservers w = (r, w')"
      and "new_events w w' = pre @ EngineRun req # post"
      and "is_appserver_probe req"
  shows "\<exists>j \<in> set appservers. \<exists>openPayload.
           req = appserver_request d (the_app w) (config_services (the_app w) ! j) openPayload
         \<and> CacheSet (app_name (the_app w) @ ''.'' @ service_name (config_services (the_app w) ! j) @ ''.open.cache'')
              (CVal openPayload) \<in> set pre"
proof -
  from appserver_probe_position [OF assms]
  obtain serviceData pre' j where pre: "pre = phase1_events d (the_app w) picks services @ pre'"
    and j: "j \<in> set appservers"
    and req: "req = appserver_request d (the_app w) (config_services (the_app w) ! j)
                   (open_payload d serviceData (config_services (the_app w) ! j))"
    and set: "CacheSet (open_cache_key (the_app w) (config_services (the_app w) ! j))
              (CVal (open_payload d serviceData (config_services (the_app w) ! j))) \<in> set pre'"
    by blast
  from set pre have "CacheSet (app_name (the_app w) @ ''.'' @ service_name (config_services (the_app w) ! j) @ ''.open.cache'')
              (CVal (open_payload d serviceData (config_services (the_app w) ! j))) \<in> set pre"
    by (simp add: open_cache_key_def)
  with j req show ?thesis by blast
qed

theorem open_payload_cached_before_probe_witness:
  "post_start_open example_deps [] [0] [1] example_scanned = (fst example_opened, snd example_opened)
   \<and> is_appserver_probe (appserver_request example_deps (the_app example_scanned) example_web example_payload)
   \<and> (\<exists>openPayload. CacheSet ''myapp.web.open.cache'' (CVal openPayload)
         \<in> set (take 7 (new_events example_scanned (snd example_opened))))"
proof -
  let ?req = "appserver_request example_deps (the_app example_scanned) example_web example_payload"
  let ?pre = "take 7 (new_events example_scanned (snd example_opened))"
  have run: "post_start_open example_deps [] [0] [1] example_scanned = (fst example_opened, snd example_opened)"
    by (simp add: example_opened_def)
  have ev: "new_events example_scanned (snd example_opened) = ?pre @ EngineRun ?req # []"
    by (simp add: example_opened_events)
  have probe: "is_appserver_probe ?req"
    by (simp add: is_appserver_probe_def appserver_request_def)
  from open_payload_cached_before_probe [OF run ev probe]
  have "\<exists>openPayload. CacheSet ''myapp.web.open.cache'' (CVal openPayload) \<in> set ?pre"
    by (simp add: example_scanned_services example_web_def) blast
  with run probe show ?thesis by blast
qed

lemma phase1_settled:
  assumes ok: "first_rejection (phase1_results d a services) = None"
      and i: "i \<in> set services"
  shows "\<exists>out. Settled (service_name (config_services a ! i)) (Inr out)
           \<in> set (phase1_events d a picks services)"
proof -
  from i have "snd (open_service d a (config_services a ! i)) \<in> set (phase1_results d a services)"
    by (simp add: phase1_results_def)
  from first_rejection_None [OF ok this] obtain x where
    "snd (open_service d a (config_services a ! i)) = Inr x" by blast
  from open_service_settled [OF this] obtain out where
    "Settled (service_name (config_services a ! i)) (Inr out) \<in> set (fst (open_service d a (config_services a ! i)))"
    by blast
  moreover from i have "i \<in> set (schedule picks services)" by (simp add: set_schedule)
  ultimately show ?thesis by (auto simp add: phase1_events_def)
qed

text \<open>What \<^verbatim>\<open>_.fromPairs\<close> collects: every pair is there under its key, and nothing else is.\<close>

lemma fromPairs_into_undefined:
  "None \<in> set pairs \<Longrightarrow> fromPairs_into result pairs = Inl (TypeError ''Cannot read property 0 of undefined'')"
  by (induction result pairs rule: fromPairs_into.induct) auto

lemma fulfilled_mem: "Inr x \<in> set rs \<Longrightarrow> x \<in> set (fulfilled rs)"
  by (induction rs rule: fulfilled.induct) auto

lemma fromPairs_into_keeps:
  "fromPairs_into result pairs = Inr m \<Longrightarrow> result n \<noteq> None \<Longrightarrow> m n \<noteq> None"
  by (induction result pairs rule: fromPairs_into.induct) (auto split: if_splits)

lemma fromPairs_into_has_key:
  "fromPairs_into result pairs = Inr m \<Longrightarrow> Some (n, v) \<in> set pairs \<Longrightarrow> m n \<noteq> None"
proof (induction result pairs rule: fromPairs_into.induct)
  case (1 result)
  then show ?case by simp
next
  case (2 result pairs)
  then show ?case by simp
next
  case (3 result pair pairs)
  show ?case
  proof (cases "pair = (n, v)")
    case True
    with "3.prems"(1) show ?thesis
      using fromPairs_into_keeps [of "result(fst pair \<mapsto> snd pair)" pairs m n] by simp
  next
    case False
    with "3.prems" have mem: "Some (n, v) \<in> set pairs" by simp
    from "3.prems"(1) have "fromPairs_into (result(fst pair \<mapsto> snd pair)) pairs = Inr m" by simp
    from "3.IH" [OF this mem] show ?thesis .
  qed
qed

lemma fromPairs_into_from_pair:
  "fromPairs_into result pairs = Inr m \<Longrightarrow> m n = Some v \<Longrightarrow>
     result n = Some v \<or> Some (n, v) \<in> set pairs"
proof (induction result pairs rule: fromPairs_into.induct)
  case (1 result)
  then show ?case by simp
next
  case (2 result pairs)
  then show ?case by simp
next
  case (3 result pair pairs)
  from "3.prems"(1) have "fromPairs_into (result(fst pair \<mapsto> snd pair)) pairs = Inr m" by simp
  from "3.IH" [OF this "3.prems"(2)]
  have "(result(fst pair \<mapsto> snd pair)) n = Some v \<or> Some (n, v) \<in> set pairs" .
  then show ?case by (cases pair) (auto split: if_splits)
qed

lemma fulfilled_set: "x \<in> set (fulfilled rs) \<longleftrightarrow> Inr x \<in> set rs"
  by (induction rs rule: fulfilled.induct) auto

lemma open_service_pair_name:
  "snd (open_service d a s) = Inr (Some (n, parsedData)) \<Longrightarrow> n = service_name s"
  by (auto simp add: open_service_def Let_def split: sum.splits)

lemma phase1_collected:
  assumes ok: "first_rejection (phase1_results d a services) = None"
      and sd: "fromPairs (fulfilled (phase1_results d a services)) = Inr serviceData"
  shows "\<forall>i \<in> set services. \<exists>parsedData. serviceData (service_name (config_services a ! i)) = Some parsedData"
    and "\<forall>n parsedData. serviceData n = Some parsedData \<longrightarrow>
           (\<exists>i \<in> set services. n = service_name (config_services a ! i)
              \<and> snd (open_service d a (config_services a ! i)) = Inr (Some (n, parsedData)))"
proof -
  let ?rs = "phase1_results d a services"
  from sd have into: "fromPairs_into Map.empty (fulfilled ?rs) = Inr serviceData"
    by (simp add: fromPairs_def)
  have defined: "None \<notin> set (fulfilled ?rs)"
  proof
    assume "None \<in> set (fulfilled ?rs)"
    from fromPairs_into_undefined [OF this, of Map.empty] into show False by simp
  qed
  show "\<forall>i \<in> set services. \<exists>parsedData. serviceData (service_name (config_services a ! i)) = Some parsedData"
  proof
    fix i assume i: "i \<in> set services"
    then have mem: "snd (open_service d a (config_services a ! i)) \<in> set ?rs"
      by (simp add: phase1_results_def)
    from first_rejection_None [OF ok mem] obtain x where
      x: "snd (open_service d a (config_services a ! i)) = Inr x" by blast
    with mem have "x \<in> set (fulfilled ?rs)" by (simp add: fulfilled_set)
    with defined obtain n pd where p: "x = Some (n, pd)" by (cases x) auto
    with x open_service_pair_name have n: "n = service_name (config_services a ! i)" by blast
    from p \<open>x \<in> set (fulfilled ?rs)\<close> fromPairs_into_has_key [OF into, of n pd]
    have "serviceData n \<noteq> None" by simp
    with n show "\<exists>parsedData. serviceData (service_name (config_services a ! i)) = Some parsedData"
      by auto
  qed
  show "\<forall>n parsedData. serviceData n = Some parsedData \<longrightarrow>
           (\<exists>i \<in> set services. n = service_name (config_services a ! i)
              \<and> snd (open_service d a (config_services a ! i)) = Inr (Some (n, parsedData)))"
  proof (intro allI impI)
    fix n pd assume "serviceData n = Some pd"
    from fromPairs_into_from_pair [OF into this] have "Some (n, pd) \<in> set (fulfilled ?rs)" by simp
    then have "Inr (Some (n, pd)) \<in> set ?rs" by (simp add: fulfilled_set)
    then obtain i where i: "i \<in> set services"
      and r: "snd (open_service d a (config_services a ! i)) = Inr (Some (n, pd))"
      by (auto simp add: phase1_results_def)
    from r open_service_pair_name have "n = service_name (config_services a ! i)" by blast
    with i r show "\<exists>i \<in> set services. n = service_name (config_services a ! i)
              \<and> snd (open_service d a (config_services a ! i)) = Inr (Some (n, pd))" by blast
  qed
qed

text \<open>
  Claim C1. In every run of the OPEN handler, whatever the order in which the phase-1
  probes settle, when a probe of an application server starts, the probe of every backing
  service has settled with its output before it. By then \<^verbatim>\<open>_.fromPairs\<close> has collected the
  phase-1 values into the one mapping from which the payload of that application server
  is computed: the mapping has an entry under the name of every backing service, every
  entry is the parsed and merged data of a backing service of that name, and where the
  names of the backing services differ, the entry under a service's name is that
  service's data.
\<close>

theorem phase2_waits_for_phase1:
  assumes "post_start_open d picks services appservers w = (r, w')"
      and "new_events w w' = pre @ EngineRun req # post"
      and "is_appserver_probe req"
  shows "(\<forall>i \<in> set services. \<exists>out.
            Settled (service_name (config_services (the_app w) ! i)) (Inr out) \<in> set pre)
       \<and> (\<exists>serviceData.
            fromPairs (fulfilled (phase1_results d (the_app w) services)) = Inr serviceData
          \<and> (\<forall>i \<in> set services. \<exists>parsedData.
                serviceData (service_name (config_services (the_app w) ! i)) = Some parsedData)
          \<and> (\<forall>n parsedData. serviceData n = Some parsedData \<longrightarrow>
                (\<exists>i \<in> set services. n = service_name (config_services (the_app w) ! i)
                   \<and> snd (open_service d (the_app w) (config_services (the_app w) ! i))
                       = Inr (Some (n, parsedData))))
          \<and> (inj_on (\<lambda>i. service_name (config_services (the_app w) ! i)) (set services) \<longrightarrow>
                (\<forall>i \<in> set services. \<forall>parsedData.
                   snd (open_service d (the_app w) (config_services (the_app w) ! i))
                     = Inr (Some (service_name (config_services (the_app w) ! i), parsedData))
                   \<longrightarrow> serviceData (service_name (config_services (the_app w) ! i)) = Some parsedData))
          \<and> (\<exists>j \<in> set appservers.
                req = appserver_request d (the_app w) (config_services (the_app w) ! j)
                        (open_payload d serviceData (config_services (the_app w) ! j))))"
proof -
  let ?a = "the_app w"
  let ?name = "\<lambda>i. service_name (config_services ?a ! i)"
  from appserver_probe_position [OF assms]
  obtain serviceData pre' j where ok: "first_rejection (phase1_results d ?a services) = None"
    and sd: "fromPairs (fulfilled (phase1_results d ?a services)) = Inr serviceData"
    and pre: "pre = phase1_events d ?a picks services @ pre'"
    and j: "j \<in> set appservers"
    and req: "req = appserver_request d ?a (config_services ?a ! j)
                   (open_payload d serviceData (config_services ?a ! j))"
    by blast
  have settled: "\<forall>i \<in> set services. \<exists>out. Settled (?name i) (Inr out) \<in> set pre"
    using phase1_settled [OF ok, of _ picks] pre by fastforce
  note keys = phase1_collected(1) [OF ok sd]
  note entries = phase1_collected(2) [OF ok sd]
  have own: "inj_on ?name (set services) \<longrightarrow>
                (\<forall>i \<in> set services. \<forall>parsedData.
                   snd (open_service d ?a (config_services ?a ! i)) = Inr (Some (?name i, parsedData))
                   \<longrightarrow> serviceData (?name i) = Some parsedData)"
  proof (intro impI ballI allI)
    fix i parsedData
    assume inj: "inj_on ?name (set services)" and i: "i \<in> set services"
      and r: "snd (open_service d ?a (config_services ?a ! i)) = Inr (Some (?name i, parsedData))"
    from keys i obtain pd where pd: "serviceData (?name i) = Some pd" by blast
    from entries pd obtain i' where i': "i' \<in> set services" and n: "?name i = ?name i'"
      and r': "snd (open_service d ?a (config_services ?a ! i')) = Inr (Some (?name i, pd))"
      by blast
    from inj i i' n have "i = i'" by (auto dest: inj_onD)
    with r r' pd show "serviceData (?name i) = Some parsedData" by simp
  qed
  from settled sd keys entries own j req show ?thesis by blast
qed

theorem phase2_waits_for_phase1_witness:
  "post_start_open example_deps [] [0] [1] example_scanned = (fst example_opened, snd example_opened)
   \<and> is_appserver_probe (appserver_request example_deps (the_app example_scanned) example_web example_payload)
   \<and> inj_on (\<lambda>i. service_name (config_services (the_app example_scanned) ! i)) (set [0])
   \<and> (\<exists>out. Settled ''db'' (Inr out) \<in> set (take 7 (new_events example_scanned (snd example_opened))))
   \<and> (\<exists>serviceData. fromPairs (fulfilled (phase1_results example_deps (the_app example_scanned) [0]))
          = Inr serviceData
        \<and> serviceData ''db'' =
            Some [(''database'', [(''host'', JStr ''x''), (''cluster'', JStr ''bespin''), (''fragment'', JNull),
                    (''hostname'', JStr ''myapp.db.service._.lndo.site''), (''ip'', JStr ''10.0.0.5''),
                    (''rel'', JStr ''database.internal''), (''service'', JStr ''db''),
                    (''type'', JStr ''mysql:10'')])])"
proof -
  let ?req = "appserver_request example_deps (the_app example_scanned) example_web example_payload"
  let ?pre = "take 7 (new_events example_scanned (snd example_opened))"
  have run: "post_start_open example_deps [] [0] [1] example_scanned = (fst example_opened, snd example_opened)"
    by (simp add: example_opened_def)
  have ev: "new_events example_scanned (snd example_opened) = ?pre @ EngineRun ?req # []"
    by (simp add: example_opened_events)
  have probe: "is_appserver_probe ?req"
    by (simp add: is_appserver_probe_def appserver_request_def)
  have inj: "inj_on (\<lambda>i. service_name (config_services (the_app example_scanned) ! i)) (set [0])"
    by simp
  have name: "service_name (example_db\<lparr>openMerge := Some example_openMerge\<rparr>) = ''db''"
    by (simp add: example_db_def)
  note T = phase2_waits_for_phase1 [OF run ev probe]
  from T [THEN conjunct1] have settled: "\<exists>out. Settled ''db'' (Inr out) \<in> set ?pre"
    by (simp add: example_scanned_services name)
  from T [THEN conjunct2] obtain serviceData where
    sd: "fromPairs (fulfilled (phase1_results example_deps (the_app example_scanned) [0])) = Inr serviceData"
    and own: "inj_on (\<lambda>i. service_name (config_services (the_app example_scanned) ! i)) (set [0]) \<longrightarrow>
                (\<forall>i \<in> set [0]. \<forall>parsedData.
                   snd (open_service example_deps (the_app example_scanned)
                          (config_services (the_app example_scanned) ! i))
                     = Inr (Some (service_name (config_services (the_app example_scanned) ! i), parsedData))
                   \<longrightarrow> serviceData (service_name (config_services (the_app example_scanned) ! i))
                        = Some parsedData)"
    by (elim exE conjE) blast
  from own inj have "serviceData ''db'' =
            Some [(''database'', [(''host'', JStr ''x''), (''cluster'', JStr ''bespin''), (''fragment'', JNull),
                    (''hostname'', JStr ''myapp.db.service._.lndo.site''), (''ip'', JStr ''10.0.0.5''),
                    (''rel'', JStr ''database.internal''), (''service'', JStr ''db''),
                    (''type'', JStr ''mysql:10'')])]"
    by (simp add: example_scanned_services example_open_service name)
  with run probe inj settled sd show ?thesis by blast
qed

subsection \<open>What phase 1 merges into the endpoints\<close>

lemma map_of_assign: "map_of (assign k v obj) = (map_of obj)(k \<mapsto> v)"
  by (induction obj) auto

lemma get_prop_assignMergeValue:
  "get_prop (assignMergeValue obj kv) k =
     (if fst kv = k \<and> snd kv \<noteq> JUndefined then snd kv else get_prop obj k)"
proof (cases "snd kv = JUndefined \<and> fst kv \<notin> fst ` set obj")
  case True
  then have "map_of obj (fst kv) = None" by (simp add: map_of_eq_None_iff)
  with True show ?thesis
    by (simp add: assignMergeValue_def get_prop_def map_of_assign)
next
  case False
  then show ?thesis
    by (auto simp add: assignMergeValue_def get_prop_def map_of_assign)
qed

lemma merge_Cons: "merge obj (kv # source) = merge (assignMergeValue obj kv) source"
  by (simp add: merge_def)

lemma merge_Nil: "merge obj [] = obj"
  by (simp add: merge_def)

lemma get_prop_merge_openMerge:
  "get_prop (merge endpoint (make_openMerge d a s data)) k =
    (if k = ''type'' then JStr (join_colon (psh_type s) (version s))
     else if k = ''service'' then JStr (service_name s)
     else if k = ''rel'' \<and> psh_hostname s \<noteq> JUndefined then psh_hostname s
     else if k = ''ip'' \<and> getIPAddress d data (project a @ ''_default'') \<noteq> JUndefined
       then getIPAddress d data (project a @ ''_default'')
     else if k = ''hostname'' then JStr (app_name a @ ''.'' @ service_name s @ ''.service._.lndo.site'')
     else if k = ''fragment'' then JNull
     else if k = ''cluster'' then JStr ''bespin''
     else get_prop endpoint k)"
  by (simp add: make_openMerge_def merge_Cons merge_Nil get_prop_assignMergeValue)

text \<open>
  Claim C6, as amended. The hostname that the post-start scan synthesises for a backing
  service, and that phase 1 merges into each of its endpoints, is
  \<^verbatim>\<open><app>.<service>.service._.lndo.site\<close>: the suffix is the literal \<^verbatim>\<open>lndo.site\<close>, whatever
  domain the installation is configured with.
\<close>

theorem hostname_has_fixed_suffix:
  assumes "openMerge s = Some (make_openMerge d a s0 data)"
      and "ke \<in> set (merge_open_data s parsedData)"
  shows "get_prop (snd ke) ''hostname'' = JStr (app_name a @ ''.'' @ service_name s0 @ ''.service._.lndo.site'')"
  using assms by (auto simp add: merge_open_data_def get_prop_merge_openMerge)

theorem hostname_has_fixed_suffix_witness:
  "openMerge (example_db\<lparr>openMerge := Some (make_openMerge example_deps example_app example_db JNull)\<rparr>)
     = Some (make_openMerge example_deps example_app example_db JNull)
   \<and> (''database'', merge [(''host'', JStr ''x'')] (make_openMerge example_deps example_app example_db JNull))
       \<in> set (merge_open_data
                 (example_db\<lparr>openMerge := Some (make_openMerge example_deps example_app example_db JNull)\<rparr>)
                 [(''database'', [(''host'', JStr ''x'')])])
   \<and> get_prop (merge [(''host'', JStr ''x'')] (make_openMerge example_deps example_app example_db JNull)) ''hostname''
       = JStr ''myapp.db.service._.lndo.site''"
proof -
  let ?om = "make_openMerge example_deps example_app example_db JNull"
  let ?s = "example_db\<lparr>openMerge := Some ?om\<rparr>"
  have h1: "openMerge ?s = Some ?om" by simp
  have h2: "(''database'', merge [(''host'', JStr ''x'')] ?om)
              \<in> set (merge_open_data ?s [(''database'', [(''host'', JStr ''x'')])])"
    by (simp add: merge_open_data_def)
  from hostname_has_fixed_suffix [OF h1 h2]
  have "get_prop (merge [(''host'', JStr ''x'')] ?om) ''hostname'' = JStr ''myapp.db.service._.lndo.site''"
    by (simp add: example_app_def example_db_def)
  with h1 h2 show ?thesis by blast
qed

text \<open>
  The claim as it was stated, with the configured domain suffix of the installation, fails
  for an installation whose domain is \<^verbatim>\<open>lando.test\<close>.
\<close>

theorem hostname_ignores_configured_domain:
  "get_prop (make_openMerge example_deps (example_app\<lparr>conf_domain := ''lando.test''\<rparr>) example_db JNull) ''hostname''
     = JStr ''myapp.db.service._.lndo.site''
   \<and> get_prop (make_openMerge example_deps (example_app\<lparr>conf_domain := ''lando.test''\<rparr>) example_db JNull) ''hostname''
     \<noteq> JStr (app_name (example_app\<lparr>conf_domain := ''lando.test''\<rparr>) @ ''.'' @ service_name example_db
              @ ''.service._.'' @ conf_domain (example_app\<lparr>conf_domain := ''lando.test''\<rparr>))"
  by (simp add: make_openMerge_def get_prop_def example_app_def example_db_def)

lemma scan_one:
  assumes cs: "config_services (the_app w) = [db, web]"
      and scan: "engine_scan d (container_id (the_app w) (service_name db)) = Inr data"
  shows "post_start_scan d [0] w =
           (None, w\<lparr>the_app := (the_app w)\<lparr>config_services :=
                      [db\<lparr>openMerge := Some (make_openMerge d (the_app w) db data)\<rparr>, web]\<rparr>\<rparr>)"
  using assms by (simp add: post_start_scan_def scan_service_def Let_def)


text \<open>
  Claim C5. Take a topology with the service \<^verbatim>\<open>db\<close> of type \<^verbatim>\<open>mysql\<close>, version \<^verbatim>\<open>10\<close>, and
  the application server \<^verbatim>\<open>web\<close> declaring the relationship \<^verbatim>\<open>database\<close> bound to \<^verbatim>\<open>db\<close>. When
  the scan of \<^verbatim>\<open>db\<close> gives the IP address \<^verbatim>\<open>10.0.0.5\<close> and its probe output parses to the one
  endpoint \<^verbatim>\<open>{host: "x"}\<close> under \<^verbatim>\<open>database\<close>, the payload that the OPEN handler caches for
  \<^verbatim>\<open>web\<close> and passes to its probe has, under \<^verbatim>\<open>database\<close>, one entry with host \<^verbatim>\<open>x\<close>, ip
  \<^verbatim>\<open>10.0.0.5\<close>, service \<^verbatim>\<open>db\<close> and type \<^verbatim>\<open>mysql:10\<close>. The payload is built by the functions
  modelled from the specification.
\<close>

theorem open_payload_of_example_topology:
  assumes cs: "config_services (the_app w) = [db, web]"
      and db: "service_name db = ''db''" "psh_type db = Some ''mysql''" "version db = Some ''10''"
      and web: "service_name web = ''web''" "relationships web = [(''database'', ''db'')]"
      and scan: "engine_scan d (container_id (the_app w) ''db'') = Inr data"
      and ip: "getIPAddress d data (project (the_app w) @ ''_default'') = JStr ''10.0.0.5''"
      and probe: "retry (retry_max d) (engine_run d (service_request (the_app w) db)) 0 = Inr out"
      and parse: "parseOpenData d out = Inr [(''database'', [(''host'', JStr ''x'')])]"
      and lib: "open_parseRelationships d = parseRelationships_spec"
               "generateOpenPayload d = generateOpenPayload_spec"
  shows "\<exists>e w'. snd (post_start_open d picks [0] [1] (snd (post_start_scan d [0] w))) = w'
           \<and> cache w' (app_name (the_app w) @ ''.web.open.cache'')
               = Some (CVal (JObj [(''database'', JArr [JObj e])]))
           \<and> last (trace w') = EngineRun (appserver_request d (the_app w') web (JObj [(''database'', JArr [JObj e])]))
           \<and> get_prop e ''host'' = JStr ''x'' \<and> get_prop e ''ip'' = JStr ''10.0.0.5''
           \<and> get_prop e ''service'' = JStr ''db'' \<and> get_prop e ''type'' = JStr ''mysql:10''"
proof -
  let ?a = "the_app w"
  let ?om = "make_openMerge d ?a db data"
  let ?db = "db\<lparr>openMerge := Some ?om\<rparr>"
  let ?a1 = "?a\<lparr>config_services := [?db, web]\<rparr>"
  let ?w1 = "w\<lparr>the_app := ?a1\<rparr>"
  let ?e = "merge [(''host'', JStr ''x'')] ?om"
  let ?payload = "JObj [(''database'', JArr [JObj ?e])]"
  have scanned: "snd (post_start_scan d [0] w) = ?w1"
    using scan_one [OF cs, of d data] scan db(1) by simp
  have req: "service_request ?a1 ?db = service_request ?a db"
    by (simp add: service_request_def container_id_def)
  have result: "snd (open_service d ?a1 ?db) = Inr (Some (''db'', [(''database'', ?e)]))"
    by (simp add: open_service_def req probe parse Let_def merge_open_data_def db(1))
  have payload: "open_payload d [''db'' \<mapsto> [(''database'', ?e)]] web = ?payload"
    by (simp add: open_payload_def lib parseRelationships_spec_def generateOpenPayload_spec_def web)
  have c: "cache (snd (post_start_open d picks [0] [1] ?w1)) (app_name ?a @ ''.web.open.cache'') = Some (CVal ?payload)"
    by (simp add: post_start_open_def phase1_results_def result fromPairs_def Let_def
          open_appserver_def effect_defs payload open_cache_key_def web)
  have t: "last (trace (snd (post_start_open d picks [0] [1] ?w1)))
             = EngineRun (appserver_request d (the_app (snd (post_start_open d picks [0] [1] ?w1))) web ?payload)"
    by (simp add: post_start_open_def phase1_results_def result fromPairs_def Let_def
          open_appserver_def effect_defs payload open_cache_key_def web)
  have props: "get_prop ?e ''host'' = JStr ''x''" "get_prop ?e ''ip'' = JStr ''10.0.0.5''"
    "get_prop ?e ''service'' = JStr ''db''" "get_prop ?e ''type'' = JStr ''mysql:10''"
    by (simp_all add: get_prop_merge_openMerge ip db join_colon_def) (simp add: get_prop_def)
  from c t props show ?thesis
    unfolding scanned by blast
qed

theorem open_payload_of_example_topology_witness:
  "config_services (the_app example_initialised) = [example_db, example_web]
   \<and> service_name example_db = ''db'' \<and> psh_type example_db = Some ''mysql'' \<and> version example_db = Some ''10''
   \<and> service_name example_web = ''web'' \<and> relationships example_web = [(''database'', ''db'')]
   \<and> engine_scan example_deps (container_id (the_app example_initialised) ''db'') = Inr JNull
   \<and> getIPAddress example_deps JNull (project (the_app example_initialised) @ ''_default'') = JStr ''10.0.0.5''
   \<and> retry (retry_max example_deps)
         (engine_run example_deps (service_request (the_app example_initialised) example_db)) 0
       = Inr example_output
   \<and> parseOpenData example_deps example_output = Inr [(''database'', [(''host'', JStr ''x'')])]
   \<and> (\<exists>e. cache (snd (post_start_open example_deps [] [0] [1]
                         (snd (post_start_scan example_deps [0] example_initialised))))
               ''myapp.web.open.cache''
             = Some (CVal (JObj [(''database'', JArr [JObj e])]))
           \<and> get_prop e ''host'' = JStr ''x'' \<and> get_prop e ''ip'' = JStr ''10.0.0.5''
           \<and> get_prop e ''service'' = JStr ''db'' \<and> get_prop e ''type'' = JStr ''mysql:10'')"
proof -
  have cs: "config_services (the_app example_initialised) = [example_db, example_web]"
    by (simp add: example_initialised_services)
  have db: "service_name example_db = ''db''" "psh_type example_db = Some ''mysql''"
    "version example_db = Some ''10''"
    by (simp_all add: example_db_def)
  have web: "service_name example_web = ''web''" "relationships example_web = [(''database'', ''db'')]"
    by (simp_all add: example_web_def)
  have scan: "engine_scan example_deps (container_id (the_app example_initialised) ''db'') = Inr JNull"
    by (simp add: example_deps_def)
  have ip: "getIPAddress example_deps JNull (project (the_app example_initialised) @ ''_default'') = JStr ''10.0.0.5''"
    by (simp add: example_deps_def)
  have probe: "retry (retry_max example_deps)
         (engine_run example_deps (service_request (the_app example_initialised) example_db)) 0
       = Inr example_output"
    by (simp add: example_deps_def eval_nat_numeral)
  have parse: "parseOpenData example_deps example_output = Inr [(''database'', [(''host'', JStr ''x'')])]"
    by (simp add: example_deps_def)
  have lib: "open_parseRelationships example_deps = parseRelationships_spec"
    "generateOpenPayload example_deps = generateOpenPayload_spec"
    by (simp_all add: example_deps_def)
  from open_payload_of_example_topology [OF cs db web scan ip probe parse lib]
  have "\<exists>e. cache (snd (post_start_open example_deps [] [0] [1]
                         (snd (post_start_scan example_deps [0] example_initialised))))
               ''myapp.web.open.cache''
             = Some (CVal (JObj [(''database'', JArr [JObj e])]))
           \<and> get_prop e ''host'' = JStr ''x'' \<and> get_prop e ''ip'' = JStr ''10.0.0.5''
           \<and> get_prop e ''service'' = JStr ''db'' \<and> get_prop e ''type'' = JStr ''mysql:10''"
    by (simp add: example_initialised_services) blast
  with cs db web scan ip probe parse show ?thesis by blast
qed


subsection \<open>A probe output that does not parse\<close>

text \<open>
  When the output of one backing service does not parse and no probe is rejected, the
  \<^verbatim>\<open>then\<close> callback of phase 1 returns undefined for it, \<^verbatim>\<open>_.fromPairs\<close> throws on that
  element, and the handler ends with that error after phase 1: nothing of phase 2 happens.
\<close>

lemma parse_failure_rejects_handler:
  assumes i: "i \<in> set services"
      and bad: "snd (open_service d (the_app w) (config_services (the_app w) ! i)) = Inr None"
      and ok: "first_rejection (phase1_results d (the_app w) services) = None"
  shows "post_start_open d picks services appservers w =
           (Some (TypeError ''Cannot read property 0 of undefined''),
            w\<lparr>trace := trace w @ phase1_events d (the_app w) picks services\<rparr>)"
proof -
  from i bad have "Inr None \<in> set (phase1_results d (the_app w) services)"
    by (force simp add: phase1_results_def)
  then have "None \<in> set (fulfilled (phase1_results d (the_app w) services))"
    by (rule fulfilled_mem)
  then have "fromPairs (fulfilled (phase1_results d (the_app w) services))
               = Inl (TypeError ''Cannot read property 0 of undefined'')"
    by (simp add: fromPairs_def fromPairs_into_undefined)
  with ok show ?thesis by (simp add: post_start_open_def Let_def)
qed

text \<open>
  Claim C2 says that a parse failure of one backing service leaves the run going, with the
  other services' data reaching phase 2. The handler does log the error with the raw
  output, but then it fails: with the services \<^verbatim>\<open>db\<close> (whose output parses) and \<^verbatim>\<open>redis\<close>
  (whose output does not, and which settles first here) and the application server \<^verbatim>\<open>web\<close>,
  it ends with a TypeError, and its trace holds the two phase-1 probes and the error log
  only: no payload is cached and \<^verbatim>\<open>web\<close> is never opened.
\<close>

theorem parse_failure_aborts_open:
  "post_start_open garbled_deps [1] [0, 1] [2] garbled_world =
     (Some (TypeError ''Cannot read property 0 of undefined''),
      garbled_world\<lparr>trace :=
        [EngineRun (service_request (the_app garbled_world) (example_db\<lparr>openMerge := Some example_openMerge\<rparr>)),
         EngineRun (service_request (the_app garbled_world) example_redis),
         Settled ''redis'' (Inr ''Warning: no data''),
         AppLog ErrorLevel ''could not parse json'' [JStr ''SyntaxError'', JStr ''Warning: no data''],
         Settled ''db'' (Inr example_output)]\<rparr>)"
  by (simp add: post_start_open_def phase1_results_def phase1_events_def open_service_def
        garbled_world_def garbled_deps_def example_deps_def example_app_def example_db_def
        example_redis_def example_web_def example_output_def service_request_def container_id_def
        fromPairs_def Let_def eval_nat_numeral merge_open_data_def)

subsection \<open>\<^verbatim>\<open>pre-init\<close> without applications, and without a closest application\<close>

text \<open>
  Without a parsed application the lookup of the closest application finds nothing,
  whatever \<^verbatim>\<open>findClosestApplication\<close> returns, and the handler ends with the TypeError of
  reading \<^verbatim>\<open>.name\<close>: relationships, services and run config are not computed.
\<close>

lemma pre_init_without_parsed_applications:
  assumes "platformsh (the_app w) = Some p"
      and "parseApps d (raw_applications (config p)) (raw_applicationFiles (config p)) = []"
  shows "fst (pre_init d w) = Some (TypeError ''Cannot read property name of undefined'')"
    and "map_option psh_relationships (platformsh (the_app (snd (pre_init d w)))) = Some (psh_relationships p)"
    and "map_option psh_services (platformsh (the_app (snd (pre_init d w)))) = Some (psh_services p)"
    and "map_option runConfig (platformsh (the_app (snd (pre_init d w)))) = Some (runConfig p)"
  using assms by (simp_all add: pre_init_def effect_defs Let_def)

text \<open>
  Claim C3 asks that a run without any valid application definition is aborted with a
  ConfigError. The guard for that case, under the comment "Error if we don't have at
  least one .platform.app.yml", only logs the error. With no application definition the
  handler gets past the guard, registers the \<^verbatim>\<open>post-start\<close> (9) handler, parses routes and
  applications, and is ended by the TypeError of the closest-application lookup. The run
  is aborted and the later steps never run (no relationships, no run config), but what
  aborts it is that TypeError and not a ConfigError raised at the guard.
\<close>

theorem empty_applications_not_fatal_at_guard:
  "isEmpty (raw_applications (loadConfigFiles no_apps_deps (root (the_app example_world))))
   \<and> fst (pre_init no_apps_deps no_apps_installed) = Some (TypeError ''Cannot read property name of undefined'')
   \<and> new_events no_apps_installed (snd (pre_init no_apps_deps no_apps_installed)) =
       [LandoLog ErrorLevel ''Could not detect any valid .platform.app.yaml files in /app or its subdirs!'',
        AppLog Verbose ''parsed platformsh routes'' [],
        AppLog Silly ''platformsh routes are'' [],
        AppLog Verbose ''parsed platformsh applications'' [],
        AppLog Silly ''platformsh applications are'' []]
   \<and> (''post-start'', Some 9, PostStartWarn)
        \<in> set (events (the_app (snd (pre_init no_apps_deps no_apps_installed))))
   \<and> map_option psh_relationships (platformsh (the_app (snd (pre_init no_apps_deps no_apps_installed))))
       = Some JUndefined
   \<and> map_option runConfig (platformsh (the_app (snd (pre_init no_apps_deps no_apps_installed)))) = Some []"
  by (simp add: no_apps_installed_def no_apps_deps_def module_exports_def pre_init_def example_defs
        effect_defs cached_tokens_def Let_def new_events_def)

text \<open>
  Claim C8 asks for an explicit ConfigError when no parsed application matches the closest
  application. The handler has no such check: with one parsed application and no closest
  application found, \<^verbatim>\<open>_.find\<close> yields undefined and reading \<^verbatim>\<open>.name\<close> of it throws a
  TypeError.
\<close>

theorem closest_app_lookup_unguarded:
  "map_option applications (platformsh (the_app (snd (pre_init lost_deps lost_installed))))
     = Some [\<lparr>application_name = ''web'', configFile = ''/app/.platform.app.yaml''\<rparr>]
   \<and> find (\<lambda>x. Some (configFile x) = findClosestApplication lost_deps)
        [\<lparr>application_name = ''web'', configFile = ''/app/.platform.app.yaml''\<rparr>] = None
   \<and> fst (pre_init lost_deps lost_installed) = Some (TypeError ''Cannot read property name of undefined'')"
  by (simp add: lost_installed_def lost_deps_def module_exports_def pre_init_def example_defs
        effect_defs cached_tokens_def Let_def)

subsection \<open>The token cache\<close>



















text \<open>
  The newest record of an identity wins, also over an incoming one: a record cached with
  a later date than the incoming token's stays. So a refresh leaves the new token cached
  for its identity only if no record of that identity is cached with a later date.
\<close>

lemma later_cached_record_stays:
  "sortTokens_spec [\<lparr>token = ''T9'', email = ''a@x.com'', date = 9\<rparr>]
                   [\<lparr>token = ''T2'', email = ''a@x.com'', date = 2\<rparr>]
     = [\<lparr>token = ''T9'', email = ''a@x.com'', date = 9\<rparr>]"
  by (simp add: sortTokens_spec_def)



end
